theory Spec2Isabelle
  imports Complex_Main
begin

section \<open>Conventions of the embedding\<close>

text \<open>
  The filter family of the repository is embedded function by function.  Each C++ class
  becomes a record of its member variables, each method a function that takes the record
  and returns the updated record (and the return value, where there is one).

  \<^item> The \<^verbatim>\<open>float\<close> and \<^verbatim>\<open>double\<close> members and locals are embedded as \<^typ>\<open>real\<close>:
    every operation is the exact real operation, rounding, infinities and NaN are not
    represented, \<^verbatim>\<open>tanf\<close>, \<^verbatim>\<open>tanhf\<close> and \<^verbatim>\<open>M_PI\<close> are \<^const>\<open>tan\<close>, \<^const>\<open>tanh\<close> and
    \<^const>\<open>pi\<close>.  Decimal literals stand for their decimal value.
  \<^item> The \<^verbatim>\<open>int\<close> members and locals of the fixed-point backend are embedded as
    \<^typ>\<open>int\<close> with the 32-bit two's-complement wrap-around written out after every
    addition, subtraction, multiplication and left shift; \<^verbatim>\<open>>>\<close> is the arithmetic
    shift; \<^verbatim>\<open>/\<close> truncates towards zero and has no result for a zero divisor.
\<close>


section \<open>Fixed-point backend: MoogLadderFilterFixedPoint\<close>

subsection \<open>32-bit integer arithmetic\<close>

definition wrap32 :: "int \<Rightarrow> int" where
  "wrap32 x = (x + 2147483648) mod 4294967296 - 2147483648"

definition is_int32 :: "int \<Rightarrow> bool" where
  "is_int32 x \<longleftrightarrow> - 2147483648 \<le> x \<and> x \<le> 2147483647"

text \<open>\<^verbatim>\<open>a / b\<close> on \<^verbatim>\<open>int\<close>: truncation towards zero; no result when \<open>b = 0\<close> or when the
  quotient does not fit (\<^verbatim>\<open>INT_MIN / -1\<close>).\<close>

definition int_div :: "int \<Rightarrow> int \<Rightarrow> int option" where
  "int_div a b =
     (if b = 0 \<or> (a = - 2147483648 \<and> b = - 1) then None
      else Some (sgn a * sgn b * (\<bar>a\<bar> div \<bar>b\<bar>)))"

text \<open>\<^verbatim>\<open>x << 16\<close> and \<^verbatim>\<open>x >> 16\<close>.\<close>

definition shl16 :: "int \<Rightarrow> int" where
  "shl16 x = wrap32 (x * 65536)"

definition shr16 :: "int \<Rightarrow> int" where
  "shr16 x = x div 65536"

text \<open>\<^verbatim>\<open>clamp_int\<close> of MoogLadderFilterFixedPoint.h.\<close>

definition clamp_int :: "int \<Rightarrow> int \<Rightarrow> int \<Rightarrow> int" where
  "clamp_int x minVal maxVal = (if x < minVal then minVal else if x > maxVal then maxVal else x)"

subsection \<open>The class\<close>

record fp_filter =
  fp_sampleRate :: int
  fp_alpha :: int
  fp_feedbackAmount :: int
  fp_fc :: int
  fp_rc :: int
  fp_prevIn :: int
  fp_s :: "int list"

text \<open>\<^verbatim>\<open>reset()\<close>.\<close>

definition fp_reset :: "fp_filter \<Rightarrow> fp_filter" where
  "fp_reset f = f\<lparr>fp_prevIn := 0, fp_s := [0, 0, 0, 0]\<rparr>"

text \<open>The constructor stores the sample rate and calls \<^verbatim>\<open>reset()\<close>; it leaves \<^verbatim>\<open>alpha\<close>,
  \<^verbatim>\<open>feedbackAmount\<close>, \<^verbatim>\<open>fc\<close> and \<^verbatim>\<open>rc\<close> as they are in the uninitialised object \<open>raw\<close>.\<close>

definition fp_construct :: "fp_filter \<Rightarrow> int \<Rightarrow> fp_filter" where
  "fp_construct raw sampleRate = fp_reset (raw\<lparr>fp_sampleRate := sampleRate\<rparr>)"

text \<open>\<^verbatim>\<open>setCutoff(int frequency)\<close>.\<close>

definition fp_setCutoff :: "int \<Rightarrow> fp_filter \<Rightarrow> fp_filter option" where
  "fp_setCutoff frequency f =
     (case int_div (fp_sampleRate f) 2 of
        None \<Rightarrow> None
      | Some half \<Rightarrow>
          let fc = clamp_int frequency 20 half in
          (case int_div (shl16 fc) (fp_sampleRate f) of
             None \<Rightarrow> None
           | Some normFreq \<Rightarrow>
               let g = shr16 (wrap32 (normFreq * normFreq)) in
               (case int_div g (wrap32 (1 + g)) of
                  None \<Rightarrow> None
                | Some alpha \<Rightarrow>
                    Some (f\<lparr>fp_fc := fc, fp_alpha := alpha,
                            fp_feedbackAmount := shr16 (wrap32 (alpha * alpha))\<rparr>))))"

text \<open>\<^verbatim>\<open>setResonance(int resonance)\<close>.\<close>

definition fp_setResonance :: "int \<Rightarrow> fp_filter \<Rightarrow> fp_filter" where
  "fp_setResonance resonance f = f\<lparr>fp_rc := clamp_int resonance 0 255 div 4\<rparr>"

text \<open>\<^verbatim>\<open>tanh_approx(int x)\<close>.\<close>

definition tanh_approx :: "int \<Rightarrow> int" where
  "tanh_approx x0 =
     (let x = clamp_int x0 (- 32768) 32767
      in wrap32 (x - shr16 (wrap32 (x * x))))"

text \<open>\<^verbatim>\<open>process(int in)\<close>: the returned sample and the updated object.\<close>

definition fp_process :: "int \<Rightarrow> fp_filter \<Rightarrow> int \<times> fp_filter" where
  "fp_process inp f =
     (let input = wrap32 (inp + 1);
          feedback = tanh_approx (wrap32 (fp_rc f * wrap32 (fp_s f ! 3 - input)));
          s1 = wrap32 (shr16 (wrap32 (wrap32 (input - feedback) * fp_alpha f))
                       + shr16 (wrap32 (fp_feedbackAmount f * (fp_s f ! 0))));
          s2 = wrap32 (shr16 (wrap32 (s1 * fp_alpha f))
                       + shr16 (wrap32 (fp_feedbackAmount f * (fp_s f ! 1))));
          s3 = wrap32 (shr16 (wrap32 (s2 * fp_alpha f))
                       + shr16 (wrap32 (fp_feedbackAmount f * (fp_s f ! 2))));
          s4 = wrap32 (shr16 (wrap32 (s3 * fp_alpha f))
                       + shr16 (wrap32 (fp_feedbackAmount f * (fp_s f ! 3))))
      in (s4, f\<lparr>fp_s := [s1, s2, s3, s4]\<rparr>))"

text \<open>A sequence of \<^verbatim>\<open>process\<close> calls: the outputs in order and the final object.\<close>

fun fp_run :: "int list \<Rightarrow> fp_filter \<Rightarrow> int list \<times> fp_filter" where
  "fp_run [] f = ([], f)"
| "fp_run (x # xs) f =
     (let (y, f') = fp_process x f; (ys, f'') = fp_run xs f' in (y # ys, f''))"


section \<open>ZDF core: ZDFMoogLadderFilter in \<^verbatim>\<open>zdf_moogladder_v2.cpp\<close>\<close>

text \<open>\<^verbatim>\<open>clamp_float\<close>.\<close>

definition clamp_float :: "real \<Rightarrow> real \<Rightarrow> real \<Rightarrow> real" where
  "clamp_float x minVal maxVal =
     (if x < minVal then minVal else if x > maxVal then maxVal else x)"

text \<open>\<^verbatim>\<open>enum FilterMode { LP24 = 0, BP12 = 1, HP24 = 2 }\<close>.  The member \<^verbatim>\<open>mode\<close> is held
  as its integer value, so that the \<^verbatim>\<open>default\<close> branch of the \<^verbatim>\<open>switch\<close> in \<^verbatim>\<open>process\<close>
  is a branch of the model.\<close>

definition LP24 :: int where "LP24 = 0"
definition BP12 :: int where "BP12 = 1"
definition HP24 :: int where "HP24 = 2"

record zdf_filter =
  zdf_sampleRate :: real
  zdf_resonance :: real
  zdf_feedbackGain :: real
  zdf_G :: real
  zdf_drive :: real
  zdf_mode :: int
  zdf_stage :: "real list"
  zdf_z :: "real list"

text \<open>\<^verbatim>\<open>reset()\<close>: both arrays have four elements.\<close>

definition zdf_reset :: "zdf_filter \<Rightarrow> zdf_filter" where
  "zdf_reset f = f\<lparr>zdf_stage := [0, 0, 0, 0], zdf_z := [0, 0, 0, 0]\<rparr>"

text \<open>\<^verbatim>\<open>setCutoff(float cutoffHz)\<close>.\<close>

definition zdf_setCutoff :: "real \<Rightarrow> zdf_filter \<Rightarrow> zdf_filter" where
  "zdf_setCutoff cutoffHz0 f =
     (let cutoffHz = clamp_float cutoffHz0 20 (zdf_sampleRate f * 0.45)
      in f\<lparr>zdf_G := tan (pi * cutoffHz / zdf_sampleRate f),
            zdf_feedbackGain := zdf_resonance f * 4\<rparr>)"

text \<open>\<^verbatim>\<open>setResonance(float r)\<close>.\<close>

definition zdf_setResonance :: "real \<Rightarrow> zdf_filter \<Rightarrow> zdf_filter" where
  "zdf_setResonance r f =
     (let resonance = clamp_float r 0 1
      in f\<lparr>zdf_resonance := resonance, zdf_feedbackGain := resonance * 4\<rparr>)"

text \<open>\<^verbatim>\<open>setMode(int newMode)\<close>.\<close>

definition zdf_setMode :: "int \<Rightarrow> zdf_filter \<Rightarrow> zdf_filter" where
  "zdf_setMode newMode f =
     (if newMode \<ge> 0 \<and> newMode \<le> 2 then f\<lparr>zdf_mode := newMode\<rparr> else f)"

text \<open>\<^verbatim>\<open>setDrive(float driveAmount)\<close>.\<close>

definition zdf_setDrive :: "real \<Rightarrow> zdf_filter \<Rightarrow> zdf_filter" where
  "zdf_setDrive driveAmount f = f\<lparr>zdf_drive := clamp_float driveAmount 0 1\<rparr>"

text \<open>The constructor: the member initialisers (\<^verbatim>\<open>sampleRate\<close>, \<^verbatim>\<open>drive(1.0f)\<close>,
  \<^verbatim>\<open>mode(LP24)\<close>) on the uninitialised object \<open>raw\<close>, then \<^verbatim>\<open>reset()\<close>,
  \<^verbatim>\<open>setCutoff(1000.0f)\<close> and \<^verbatim>\<open>setResonance(0.5f)\<close>.\<close>

definition zdf_construct :: "zdf_filter \<Rightarrow> real \<Rightarrow> zdf_filter" where
  "zdf_construct raw sampleRate =
     zdf_setResonance 0.5
       (zdf_setCutoff 1000
          (zdf_reset (raw\<lparr>zdf_sampleRate := sampleRate, zdf_drive := 1, zdf_mode := LP24\<rparr>)))"

text \<open>The loop \<^verbatim>\<open>for (int i = 0; i < 4; ++i)\<close> of \<^verbatim>\<open>process\<close>, from index \<open>i\<close> on, with
  the running value \<open>u\<close>; it returns the two arrays.\<close>

function zdf_stages :: "nat \<Rightarrow> real \<Rightarrow> real \<Rightarrow> real list \<Rightarrow> real list \<Rightarrow> real list \<times> real list" where
  "zdf_stages i G u stage z =
     (if i < 4 then
        (let v = (u - z ! i) / (1 + G);
             stage1 = stage[i := v + z ! i];
             z1 = z[i := stage1 ! i + v]
         in zdf_stages (i + 1) G (stage1 ! i) stage1 z1)
      else (stage, z))"
  by pat_completeness auto
termination
  by (relation "measure (\<lambda>(i, G, u, stage, z). 4 - i)") auto

declare zdf_stages.simps [simp del]

text \<open>\<^verbatim>\<open>process(float input)\<close>: the returned sample and the updated object.\<close>

definition zdf_process :: "real \<Rightarrow> zdf_filter \<Rightarrow> real \<times> zdf_filter" where
  "zdf_process input f =
     (let fb = (if zdf_drive f > 0.001 then tanh (zdf_stage f ! 3 * zdf_drive f)
                else zdf_stage f ! 3);
          u = input - zdf_feedbackGain f * fb;
          (stage, z) = zdf_stages 0 (zdf_G f) u (zdf_stage f) (zdf_z f);
          out = (if zdf_mode f = LP24 then stage ! 3
                 else if zdf_mode f = BP12 then stage ! 2 - stage ! 3
                 else if zdf_mode f = HP24 then input - stage ! 3
                 else stage ! 3)
      in (out, f\<lparr>zdf_stage := stage, zdf_z := z\<rparr>))"

text \<open>A sequence of \<^verbatim>\<open>process\<close> calls.\<close>

fun zdf_run :: "real list \<Rightarrow> zdf_filter \<Rightarrow> real list \<times> zdf_filter" where
  "zdf_run [] f = ([], f)"
| "zdf_run (x # xs) f =
     (let (y, f1) = zdf_process x f; (ys, f2) = zdf_run xs f1 in (y # ys, f2))"

subsection \<open>The per-sample algorithm as the specification words it\<close>

text \<open>Section 4.2 of the specification, written out for the four stages, with the drive
  level above which the feedback sample is saturated as a parameter \<open>thr\<close>; the
  specification's text is the instance \<open>thr = 0\<close> (``if drive > 0'').\<close>

definition spec_zdf_process ::
    "real \<Rightarrow> real \<Rightarrow> zdf_filter \<Rightarrow> real \<times> real list \<times> real list" where
  "spec_zdf_process thr x f =
     (let st = zdf_stage f; zs = zdf_z f; G = zdf_G f;
          fb = (if zdf_drive f > thr then tanh (st ! 3 * zdf_drive f) else st ! 3);
          u0 = x - zdf_feedbackGain f * fb;
          v0 = (u0 - zs ! 0) / (1 + G); y0 = v0 + zs ! 0; z0 = y0 + v0;
          v1 = (y0 - zs ! 1) / (1 + G); y1 = v1 + zs ! 1; z1 = y1 + v1;
          v2 = (y1 - zs ! 2) / (1 + G); y2 = v2 + zs ! 2; z2 = y2 + v2;
          v3 = (y2 - zs ! 3) / (1 + G); y3 = v3 + zs ! 3; z3 = y3 + v3;
          out = (if zdf_mode f = LP24 then y3
                 else if zdf_mode f = BP12 then y2 - y3
                 else if zdf_mode f = HP24 then x - y3
                 else y3)
      in (out, [y0, y1, y2, y3], [z0, z1, z2, z3]))"


subsection \<open>The invariant of the divergence argument\<close>

text \<open>With the saturation bypassed (\<open>drive = 0\<close>), full resonance (\<open>feedbackGain = 4\<close>)
  and a small warp coefficient (\<open>0 \<le> G \<le> 1/100\<close>), a state lies in the cone of sign
  \<open>\<sigma>\<close> when \<open>\<sigma> * stage[3]\<close> is positive and every \<open>\<sigma> * z[i]\<close> lies between 0 and ten times
  \<open>\<sigma> * stage[3]\<close>.\<close>

definition zdf_cone :: "real \<Rightarrow> zdf_filter \<Rightarrow> bool" where
  "zdf_cone \<sigma> f \<longleftrightarrow>
     zdf_drive f = 0 \<and> zdf_feedbackGain f = 4 \<and> 0 \<le> zdf_G f \<and> zdf_G f \<le> 1 / 100
     \<and> length (zdf_stage f) = 4 \<and> length (zdf_z f) = 4
     \<and> 0 < \<sigma> * (zdf_stage f ! 3)
     \<and> 0 \<le> \<sigma> * (zdf_z f ! 0) \<and> \<sigma> * (zdf_z f ! 0) \<le> 10 * (\<sigma> * (zdf_stage f ! 3))
     \<and> 0 \<le> \<sigma> * (zdf_z f ! 1) \<and> \<sigma> * (zdf_z f ! 1) \<le> 10 * (\<sigma> * (zdf_stage f ! 3))
     \<and> 0 \<le> \<sigma> * (zdf_z f ! 2) \<and> \<sigma> * (zdf_z f ! 2) \<le> 10 * (\<sigma> * (zdf_stage f ! 3))
     \<and> 0 \<le> \<sigma> * (zdf_z f ! 3) \<and> \<sigma> * (zdf_z f ! 3) \<le> 10 * (\<sigma> * (zdf_stage f ! 3))"


section \<open>Vector division: NeonMoogFilter.cpp and MoogLadderFilterBase.h\<close>

text \<open>\<^verbatim>\<open>float32x4_t\<close>: four lanes.\<close>

datatype float32x4_t = Vec4 real real real real

fun lanes1 :: "(real \<Rightarrow> real) \<Rightarrow> float32x4_t \<Rightarrow> float32x4_t" where
  "lanes1 h (Vec4 a0 a1 a2 a3) = Vec4 (h a0) (h a1) (h a2) (h a3)"

fun lanes2 :: "(real \<Rightarrow> real \<Rightarrow> real) \<Rightarrow> float32x4_t \<Rightarrow> float32x4_t \<Rightarrow> float32x4_t" where
  "lanes2 h (Vec4 a0 a1 a2 a3) (Vec4 b0 b1 b2 b3) = Vec4 (h a0 b0) (h a1 b1) (h a2 b2) (h a3 b3)"

text \<open>The NEON intrinsics the sources use, lane by lane.  The hardware reciprocal
  estimate \<^verbatim>\<open>vrecpeq_f32\<close> is not code of the repository: it is the parameter \<open>recpe\<close>.
  \<^verbatim>\<open>vrecpsq_f32(a, b)\<close> is \<open>2 - a * b\<close>, \<^verbatim>\<open>vmlaq_f32(a, b, c)\<close> is \<open>a + b * c\<close>.\<close>

definition vdupq_n_f32 :: "real \<Rightarrow> float32x4_t" where
  "vdupq_n_f32 x = Vec4 x x x x"

definition vaddq_f32 :: "float32x4_t \<Rightarrow> float32x4_t \<Rightarrow> float32x4_t" where
  "vaddq_f32 = lanes2 (\<lambda>a b. a + b)"

definition vsubq_f32 :: "float32x4_t \<Rightarrow> float32x4_t \<Rightarrow> float32x4_t" where
  "vsubq_f32 = lanes2 (\<lambda>a b. a - b)"

definition vmulq_f32 :: "float32x4_t \<Rightarrow> float32x4_t \<Rightarrow> float32x4_t" where
  "vmulq_f32 = lanes2 (\<lambda>a b. a * b)"

definition vmaxq_f32 :: "float32x4_t \<Rightarrow> float32x4_t \<Rightarrow> float32x4_t" where
  "vmaxq_f32 = lanes2 max"

definition vminq_f32 :: "float32x4_t \<Rightarrow> float32x4_t \<Rightarrow> float32x4_t" where
  "vminq_f32 = lanes2 min"

definition vmlaq_f32 :: "float32x4_t \<Rightarrow> float32x4_t \<Rightarrow> float32x4_t \<Rightarrow> float32x4_t" where
  "vmlaq_f32 a b c = vaddq_f32 a (vmulq_f32 b c)"

definition vrecpeq_f32 :: "(real \<Rightarrow> real) \<Rightarrow> float32x4_t \<Rightarrow> float32x4_t" where
  "vrecpeq_f32 recpe = lanes1 recpe"

definition vrecpsq_f32 :: "float32x4_t \<Rightarrow> float32x4_t \<Rightarrow> float32x4_t" where
  "vrecpsq_f32 = lanes2 (\<lambda>a b. 2 - a * b)"

text \<open>\<^verbatim>\<open>neon_divide_f32\<close> of NeonMoogFilter.cpp.\<close>

definition neon_divide_f32 :: "(real \<Rightarrow> real) \<Rightarrow> float32x4_t \<Rightarrow> float32x4_t \<Rightarrow> float32x4_t" where
  "neon_divide_f32 recpe num den =
     (let recip0 = vrecpeq_f32 recpe den;
          recip1 = vmulq_f32 (vrecpsq_f32 den recip0) recip0;
          recip2 = vmulq_f32 (vrecpsq_f32 den recip1) recip1
      in vmulq_f32 num recip2)"

text \<open>\<^verbatim>\<open>vdivq_f32\<close> of MoogLadderFilterBase.h.\<close>

definition vdivq_f32 :: "(real \<Rightarrow> real) \<Rightarrow> float32x4_t \<Rightarrow> float32x4_t \<Rightarrow> float32x4_t" where
  "vdivq_f32 recpe a b =
     (let reciprocal0 = vrecpeq_f32 recpe b;
          reciprocal1 = vmulq_f32 (vrecpsq_f32 b reciprocal0) reciprocal0
      in vmulq_f32 a reciprocal1)"

text \<open>One Newton-Raphson step for the reciprocal of \<open>b\<close>, as the specification writes it:
  \<open>x\<^sub>k\<^sub>+\<^sub>1 = x\<^sub>k (2 - b x\<^sub>k)\<close>.\<close>

definition newton_step :: "real \<Rightarrow> real \<Rightarrow> real" where
  "newton_step b x = x * (2 - b * x)"

text \<open>A reciprocal estimate used to run the two functions on a concrete input: the
  constant \<open>511/1024\<close>, an estimate of \<open>1/2\<close> good to eight bits.\<close>

definition recpe_of_two :: "real \<Rightarrow> real" where
  "recpe_of_two b = 511 / 1024"


section \<open>Nonlinear core, scalar backend: MoogLadderFilterScalar\<close>

text \<open>\<^verbatim>\<open>clamp\<close> and \<^verbatim>\<open>fixdenorm\<close> of MoogLadderFilterBase.h.\<close>

definition clamp :: "real \<Rightarrow> real \<Rightarrow> real \<Rightarrow> real" where
  "clamp x a b = min (max x a) b"

definition fixdenorm :: "real \<Rightarrow> real" where
  "fixdenorm val = (if \<bar>val\<bar> < 1 / 10 ^ 30 then 0 else val)"

record sc_filter =
  sc_s1 :: real
  sc_s2 :: real
  sc_s3 :: real
  sc_s4 :: real
  sc_s5 :: real
  sc_s6 :: real
  sc_s7 :: real
  sc_s8 :: real
  sc_slim :: real
  sc_previn :: real
  sc_rc :: real
  sc_fc :: real
  sc_mode :: int
  sc_sr :: real
  sc_expr1 :: real
  sc_expr2 :: real

text \<open>\<^verbatim>\<open>reset()\<close>.\<close>

definition sc_reset :: "sc_filter \<Rightarrow> sc_filter" where
  "sc_reset f =
     f\<lparr>sc_s1 := 0, sc_s2 := 0, sc_s3 := 0, sc_s4 := 0,
       sc_s5 := 0, sc_s6 := 0, sc_s7 := 0, sc_s8 := 0,
       sc_slim := 0, sc_previn := 0, sc_rc := 0, sc_fc := 1, sc_mode := 0\<rparr>"

text \<open>\<^verbatim>\<open>setSampleRate(float sr_)\<close>.\<close>

definition sc_setSampleRate :: "real \<Rightarrow> sc_filter \<Rightarrow> sc_filter" where
  "sc_setSampleRate sr f =
     (let expr1 = sqrt (clamp (12.5 / sr) 0.0001 1)
      in f\<lparr>sc_sr := sr, sc_expr1 := expr1, sc_expr2 := - ln expr1\<rparr>)"

text \<open>The constructor: \<^verbatim>\<open>setSampleRate(sampleRate); reset();\<close> on the uninitialised
  object; every member is assigned by one of the two calls.\<close>

definition sc_construct :: "sc_filter \<Rightarrow> real \<Rightarrow> sc_filter" where
  "sc_construct raw sampleRate = sc_reset (sc_setSampleRate sampleRate raw)"

text \<open>\<^verbatim>\<open>setParams(float cutoffHz, float resonanceVal, int modeSel)\<close>.\<close>

definition sc_setParams :: "real \<Rightarrow> real \<Rightarrow> int \<Rightarrow> sc_filter \<Rightarrow> sc_filter" where
  "sc_setParams cutoffHz resonanceVal modeSel f =
     f\<lparr>sc_mode := modeSel, sc_rc := clamp resonanceVal 0 1, sc_fc := fixdenorm cutoffHz\<rparr>"

text \<open>Sections 2 and 3 of \<^verbatim>\<open>process\<close>: the coefficients of the sample.\<close>

record sc_coeffs =
  c_expr6 :: real
  c_expr7 :: real
  c_expr8 :: real
  c_rsub9 :: real

definition sc_coefficients :: "real \<Rightarrow> sc_filter \<Rightarrow> sc_coeffs" where
  "sc_coefficients in3 f =
     (let rc_mod = sc_rc f + clamp (((1.05 * max in3 (1 / 10 ^ 5)) - sc_rc f) / 4) (- 1) 1;
          expr3 = sc_fc f * sc_fc f;
          expr4 = expr3 * (1 - rc_mod);
          expr5 = expr3 + (expr4 * expr4);
          expr6 = (1.25 + ((- 0.74375 + (0.3 * expr5)) * expr5)) * expr5;
          expr7 = rc_mod * (1.4 + ((0.108 + ((- 0.164 - 0.069 * expr6) * expr6)) * expr6));
          expr8 = 0.18 + 0.25 * (expr7 * expr7);
          rsub9 = 1 - expr6
      in \<lparr>c_expr6 = expr6, c_expr7 = expr7, c_expr8 = expr8, c_rsub9 = rsub9\<rparr>)"

text \<open>Section 4 of \<^verbatim>\<open>process\<close>: the first iteration.\<close>

record sc_iter1 =
  i1_expr12 :: real
  i1_expr13 :: real
  i1_expr14 :: real
  i1_expr15 :: real
  i1_expr23 :: real
  i1_expr30 :: real
  i1_expr32 :: real
  i1_add33 :: real

definition sc_first_iteration :: "sc_coeffs \<Rightarrow> sc_filter \<Rightarrow> sc_iter1" where
  "sc_first_iteration c f =
     (let expr6 = c_expr6 c; expr7 = c_expr7 c; expr8 = c_expr8 c; rsub9 = c_rsub9 c;
          expr12 = fixdenorm (sc_previn f) * expr8 - expr7 * sc_s5 f;
          expr13 = clamp (((0.062 * expr12) * expr12 + (0.993 * sc_slim f))) (- 1) 1;
          expr14 = expr12 * ((1 - expr13) + ((0.5 * expr13) * expr13));
          expr15 = expr14 * expr6 + rsub9 * sc_s1 f;
          add22 = expr15 + sc_s1 f * 0.3;
          expr23 = add22 * expr6 + rsub9 * sc_s2 f;
          add27 = expr23 + sc_s2 f * 0.3;
          clamp28 = clamp add27 (- 1) 1;
          expr29 = clamp28 * (1 - (0.3333333 * clamp28 * clamp28));
          expr30 = expr29 * expr6 + rsub9 * sc_s3 f;
          add31 = expr30 + sc_s3 f * 0.3;
          expr32 = add31 * expr6 + rsub9 * sc_s4 f;
          add33 = expr32 + sc_s4 f * 0.3
      in \<lparr>i1_expr12 = expr12, i1_expr13 = expr13, i1_expr14 = expr14, i1_expr15 = expr15,
          i1_expr23 = expr23, i1_expr30 = expr30, i1_expr32 = expr32, i1_add33 = add33\<rparr>)"

text \<open>Section 5 of \<^verbatim>\<open>process\<close>: the second iteration, from the noisy input \<^verbatim>\<open>expr10\<close>
  and the values of the first.\<close>

record sc_iter2 =
  i2_expr34 :: real
  i2_expr35 :: real
  i2_expr37 :: real
  i2_add38 :: real
  i2_expr39 :: real
  i2_add40 :: real
  i2_expr44 :: real
  i2_add48 :: real
  i2_expr49 :: real
  i2_add50 :: real

definition sc_second_iteration :: "sc_coeffs \<Rightarrow> real \<Rightarrow> sc_iter1 \<Rightarrow> sc_iter2" where
  "sc_second_iteration c expr10 p =
     (let expr6 = c_expr6 c; expr7 = c_expr7 c; expr8 = c_expr8 c; rsub9 = c_rsub9 c;
          expr34 = expr10 * expr8 - expr7 * i1_add33 p;
          expr35 = clamp (((0.062 * expr34) * expr34 + (0.993 * i1_expr13 p))) (- 1) 1;
          expr36 = expr34 * ((1 - expr35) + ((0.5 * expr35) * expr35));
          expr37 = expr36 * expr6 + rsub9 * i1_expr15 p;
          add38 = expr37 + i1_expr15 p * 0.3;
          expr39 = add38 * expr6 + rsub9 * i1_expr23 p;
          add40 = expr39 + i1_expr23 p * 0.3;
          clamp42 = clamp add40 (- 1) 1;
          expr43 = clamp42 * (1 - (0.3333333 * clamp42 * clamp42));
          expr44 = expr43 * expr6 + rsub9 * i1_expr30 p;
          add48 = expr44 + i1_expr30 p * 0.3;
          expr49 = add48 * expr6 + rsub9 * i1_expr32 p;
          add50 = expr49 + i1_expr32 p * 0.3
      in \<lparr>i2_expr34 = expr34, i2_expr35 = expr35, i2_expr37 = expr37, i2_add38 = add38,
          i2_expr39 = expr39, i2_add40 = add40, i2_expr44 = expr44, i2_add48 = add48,
          i2_expr49 = expr49, i2_add50 = add50\<rparr>)"

text \<open>\<^verbatim>\<open>process(float in1, float in2, float in3, float in4)\<close>: section 1 (the noisy
  input), the coefficients, the two iterations, the mode values and the \<^verbatim>\<open>switch\<close> of
  sections 6 and 7, and the state update of section 8.\<close>

definition sc_process :: "real \<Rightarrow> real \<Rightarrow> real \<Rightarrow> real \<Rightarrow> sc_filter \<Rightarrow> real \<times> sc_filter" where
  "sc_process in1 in2 in3 in4 f =
     (let expr10 = in1 + ((1 / 10 ^ 11) * in4);
          c = sc_coefficients in3 f;
          p = sc_first_iteration c f;
          q = sc_second_iteration c expr10 p;
          expr51 = (0.19 * (i2_add50 q + sc_s8 f)) + (0.57 * (i1_add33 p + sc_s7 f))
                   - (0.52 * sc_s6 f);
          expr52 = (i1_expr14 p - 4 * (i2_add38 q + i2_add48 q) + 6 * i2_add40 q) + expr51;
          expr53 = 4 * (i2_add40 q + expr51) - 8 * i2_add48 q;
          expr45 = (i1_expr14 p - 2 * i2_add38 q) + i2_add40 q;
          expr41 = 2 * (i2_add38 q - i2_add40 q);
          output = (if sc_mode f = 0 then expr51
                    else if sc_mode f = 1 then expr52
                    else if sc_mode f = 2 then expr53
                    else if sc_mode f = 3 then i2_add40 q
                    else if sc_mode f = 4 then expr45
                    else if sc_mode f = 5 then expr41
                    else i2_add40 q)
      in (output,
          f\<lparr>sc_previn := expr10, sc_slim := i2_expr35 q,
            sc_s1 := i1_expr15 p, sc_s2 := i2_expr39 q, sc_s3 := i2_expr44 q,
            sc_s4 := i2_expr49 q,
            sc_s5 := i2_add50 q, sc_s6 := expr51, sc_s7 := i2_add50 q,
            sc_s8 := i1_add33 p\<rparr>))"

text \<open>A sequence of \<^verbatim>\<open>process\<close> calls on audio samples, with the control inputs
  \<^verbatim>\<open>in2\<close>, \<^verbatim>\<open>in3\<close> and the noise input \<^verbatim>\<open>in4\<close> held fixed.\<close>

fun sc_run :: "real \<Rightarrow> real \<Rightarrow> real \<Rightarrow> real list \<Rightarrow> sc_filter \<Rightarrow> real list \<times> sc_filter" where
  "sc_run in2 in3 in4 [] f = ([], f)"
| "sc_run in2 in3 in4 (x # xs) f =
     (let (y, f1) = sc_process x in2 in3 in4 f; (ys, f2) = sc_run in2 in3 in4 xs f1
      in (y # ys, f2))"


section \<open>Nonlinear core, vector backend: MoogLadderFilterSIMD\<close>

record simd_filter =
  simd_s1 :: float32x4_t
  simd_s2 :: float32x4_t
  simd_s3 :: float32x4_t
  simd_s4 :: float32x4_t
  simd_s5 :: float32x4_t
  simd_s6 :: float32x4_t
  simd_s7 :: float32x4_t
  simd_s8 :: float32x4_t
  simd_slim :: float32x4_t
  simd_previn :: float32x4_t
  simd_rc :: float32x4_t
  simd_fc :: float32x4_t
  simd_expr1 :: float32x4_t
  simd_expr2 :: float32x4_t
  simd_expr1_scalar :: real
  simd_expr2_scalar :: real
  simd_sr :: real
  simd_mode :: int

text \<open>The member \<^verbatim>\<open>MoogLadderFilterSIMD::clamp_f32x4\<close>.\<close>

definition clamp_f32x4 :: "float32x4_t \<Rightarrow> real \<Rightarrow> real \<Rightarrow> float32x4_t" where
  "clamp_f32x4 input minVal maxVal =
     vmaxq_f32 (vminq_f32 input (vdupq_n_f32 maxVal)) (vdupq_n_f32 minVal)"

text \<open>\<^verbatim>\<open>reset()\<close>.\<close>

definition simd_reset :: "simd_filter \<Rightarrow> simd_filter" where
  "simd_reset f =
     (let zero = vdupq_n_f32 0
      in f\<lparr>simd_s1 := zero, simd_s2 := zero, simd_s3 := zero, simd_s4 := zero,
            simd_s5 := zero, simd_s6 := zero, simd_s7 := zero, simd_s8 := zero,
            simd_slim := zero, simd_previn := zero, simd_rc := zero,
            simd_fc := vdupq_n_f32 1, simd_mode := 0\<rparr>)"

text \<open>\<^verbatim>\<open>setSampleRate(float sr_)\<close>.\<close>

definition simd_setSampleRate :: "real \<Rightarrow> simd_filter \<Rightarrow> simd_filter" where
  "simd_setSampleRate sr f =
     (let expr1_scalar = sqrt (clamp (12.5 / sr) 0.0001 1);
          expr2_scalar = - ln expr1_scalar
      in f\<lparr>simd_sr := sr, simd_expr1_scalar := expr1_scalar, simd_expr2_scalar := expr2_scalar,
            simd_expr1 := vdupq_n_f32 expr1_scalar, simd_expr2 := vdupq_n_f32 expr2_scalar\<rparr>)"

definition simd_construct :: "simd_filter \<Rightarrow> real \<Rightarrow> simd_filter" where
  "simd_construct raw sampleRate = simd_reset (simd_setSampleRate sampleRate raw)"

text \<open>\<^verbatim>\<open>setParams(float32x4_t cutoff, float32x4_t resonance, int modeSel)\<close>.\<close>

definition simd_setParams :: "float32x4_t \<Rightarrow> float32x4_t \<Rightarrow> int \<Rightarrow> simd_filter \<Rightarrow> simd_filter" where
  "simd_setParams cutoff resonance modeSel f =
     f\<lparr>simd_mode := modeSel, simd_rc := clamp_f32x4 resonance 0 1, simd_fc := cutoff\<rparr>"

text \<open>The resonance modulation and the coefficient calculation of \<^verbatim>\<open>process\<close>; \<open>recpe\<close>
  is the hardware reciprocal estimate that \<^verbatim>\<open>vdivq_f32\<close> starts from.\<close>

record simd_coeffs =
  v_expr6 :: float32x4_t
  v_expr7 :: float32x4_t
  v_expr8 :: float32x4_t
  v_rsub9 :: float32x4_t

definition simd_coefficients :: "(real \<Rightarrow> real) \<Rightarrow> float32x4_t \<Rightarrow> simd_filter \<Rightarrow> simd_coeffs" where
  "simd_coefficients recpe in3 f =
     (let rc = simd_rc f; fc = simd_fc f;
          envShaped0 = vdivq_f32 recpe
            (vsubq_f32 (vmulq_f32 (vdupq_n_f32 1.05) (vmaxq_f32 in3 (vdupq_n_f32 (1 / 10 ^ 5)))) rc)
            (vdupq_n_f32 4);
          envShaped = clamp_f32x4 envShaped0 (- 1) 1;
          rc_mod = vaddq_f32 rc envShaped;
          expr3 = vmulq_f32 fc fc;
          expr4 = vmulq_f32 expr3 (vsubq_f32 (vdupq_n_f32 1) rc_mod);
          expr5 = vaddq_f32 expr3 (vmulq_f32 expr4 expr4);
          expr6 = vmulq_f32 (vaddq_f32 (vdupq_n_f32 1.25)
                    (vmulq_f32 (vsubq_f32 (vdupq_n_f32 (- 0.74375))
                       (vmulq_f32 (vdupq_n_f32 (- 0.3)) expr5)) expr5)) expr5;
          expr7 = vmulq_f32 rc_mod (vaddq_f32 (vdupq_n_f32 1.4)
                    (vmulq_f32 (vaddq_f32 (vdupq_n_f32 0.108)
                       (vmulq_f32 (vaddq_f32 (vdupq_n_f32 (- 0.164))
                          (vmulq_f32 (vdupq_n_f32 (- 0.069)) expr6)) expr6)) expr6));
          expr8 = vaddq_f32 (vdupq_n_f32 0.18)
                    (vmulq_f32 (vdupq_n_f32 0.25) (vmulq_f32 expr7 expr7));
          rsub9 = vsubq_f32 (vdupq_n_f32 1) expr6
      in \<lparr>v_expr6 = expr6, v_expr7 = expr7, v_expr8 = expr8, v_rsub9 = rsub9\<rparr>)"

text \<open>\<^verbatim>\<open>process(float32x4_t in1, in2, in3, in4)\<close>: the noisy input, the coefficients, the
  ladder processing, the output selection and the state update.\<close>

definition simd_process ::
    "(real \<Rightarrow> real) \<Rightarrow> float32x4_t \<Rightarrow> float32x4_t \<Rightarrow> float32x4_t \<Rightarrow> float32x4_t \<Rightarrow> simd_filter
      \<Rightarrow> float32x4_t \<times> simd_filter" where
  "simd_process recpe in1 in2 in3 in4 f =
     (let expr10 = vmlaq_f32 in1 (vdupq_n_f32 (1 / 10 ^ 11)) in4;
          c = simd_coefficients recpe in3 f;
          expr6 = v_expr6 c; expr7 = v_expr7 c; expr8 = v_expr8 c; rsub9 = v_rsub9 c;
          expr12 = vsubq_f32 (vmulq_f32 (simd_previn f) expr8) (vmulq_f32 expr7 (simd_s5 f));
          expr13 = clamp_f32x4 (vaddq_f32
                     (vmulq_f32 (vmulq_f32 (vdupq_n_f32 0.062) expr12) expr12)
                     (vmulq_f32 (vdupq_n_f32 0.993) (simd_slim f))) (- 1) 1;
          expr14 = vmulq_f32 expr12 (vaddq_f32
                     (vsubq_f32 (vdupq_n_f32 1) expr13)
                     (vmulq_f32 (vmulq_f32 (vdupq_n_f32 0.5) expr13) expr13));
          expr15 = vaddq_f32 (vmulq_f32 expr14 expr6) (vmulq_f32 rsub9 (simd_s1 f));
          expr23 = vaddq_f32 (vmulq_f32
                     (vaddq_f32 expr15 (vmulq_f32 (simd_s1 f) (vdupq_n_f32 0.3))) expr6)
                     (vmulq_f32 rsub9 (simd_s2 f));
          add27 = vaddq_f32 expr23 (vmulq_f32 (simd_s2 f) (vdupq_n_f32 0.3));
          clamp28 = clamp_f32x4 add27 (- 1) 1;
          expr29 = vmulq_f32 clamp28 (vsubq_f32 (vdupq_n_f32 1)
                     (vmulq_f32 (vmulq_f32 (vdupq_n_f32 0.3333333) clamp28) clamp28));
          expr30 = vaddq_f32 (vmulq_f32 expr29 expr6) (vmulq_f32 rsub9 (simd_s3 f));
          output = (if simd_mode f = 0 then expr30 else expr30)
      in (output,
          f\<lparr>simd_previn := expr10, simd_slim := expr13,
            simd_s1 := expr15, simd_s2 := expr23, simd_s3 := expr30\<rparr>))"

text \<open>A sequence of \<^verbatim>\<open>process\<close> calls on four-lane audio samples, the other inputs
  held fixed.\<close>

fun simd_run ::
    "(real \<Rightarrow> real) \<Rightarrow> float32x4_t \<Rightarrow> float32x4_t \<Rightarrow> float32x4_t \<Rightarrow> float32x4_t list \<Rightarrow> simd_filter
      \<Rightarrow> float32x4_t list \<times> simd_filter" where
  "simd_run recpe in2 in3 in4 [] f = ([], f)"
| "simd_run recpe in2 in3 in4 (x # xs) f =
     (let (y, f1) = simd_process recpe x in2 in3 in4 f;
          (ys, f2) = simd_run recpe in2 in3 in4 xs f1
      in (y # ys, f2))"


section \<open>Nonlinear core, double precision: MSPMoogLadderFilter\<close>

text \<open>\<^verbatim>\<open>fixDenormalNumbers\<close> and \<^verbatim>\<open>std::clamp\<close>.\<close>

definition fixDenormalNumbers :: "real \<Rightarrow> real" where
  "fixDenormalNumbers val = (if \<bar>val\<bar> < 1 / 10 ^ 18 then 0 else val)"

definition std_clamp :: "real \<Rightarrow> real \<Rightarrow> real \<Rightarrow> real" where
  "std_clamp v lo hi = (if v < lo then lo else if hi < v then hi else v)"

record msp_filter =
  msp_sampleRate :: real
  msp_previousInput :: real
  msp_resonanceCoefficient :: real
  msp_stage1State :: real
  msp_stage2State :: real
  msp_stage3State :: real
  msp_stage4State :: real
  msp_saturationState :: real
  msp_stage4DelayedOutput :: real
  msp_combinedOutput1 :: real
  msp_combinedOutput2 :: real
  msp_finalFilterOutput :: real
  msp_cutoffFrequency :: real
  msp_frequencyScaleFactor :: real
  msp_frequencyWarpFactor :: real

text \<open>The constructor.\<close>

definition msp_construct :: "real \<Rightarrow> msp_filter" where
  "msp_construct sampleRate =
     (let maxFreqRatio = min 1 (max 0.0001 (12.5 / sampleRate));
          frequencyScaleFactor = sqrt maxFreqRatio
      in \<lparr>msp_sampleRate = sampleRate,
          msp_previousInput = 0,
          msp_resonanceCoefficient = 0,
          msp_stage1State = 0,
          msp_stage2State = 0,
          msp_stage3State = 0,
          msp_stage4State = 0,
          msp_saturationState = 0,
          msp_stage4DelayedOutput = 0,
          msp_combinedOutput1 = 0,
          msp_combinedOutput2 = 0,
          msp_finalFilterOutput = 0,
          msp_cutoffFrequency = 1,
          msp_frequencyScaleFactor = frequencyScaleFactor,
          msp_frequencyWarpFactor = - ln frequencyScaleFactor\<rparr>)"

text \<open>Sections 1 and 2 of \<^verbatim>\<open>processSample\<close>: cutoff mapping and resonance coefficients.\<close>

record msp_coeffs =
  m_nextCutoffFrequency :: real
  m_resonanceScaling :: real
  m_feedbackStrength :: real
  m_inputScaling :: real
  m_inverseResonanceScaling :: real
  m_smoothedResonanceCoeff :: real

definition msp_coefficients :: "real \<Rightarrow> real \<Rightarrow> msp_filter \<Rightarrow> msp_coeffs" where
  "msp_coefficients envelopeControl resonanceControl f =
     (let scaledEnvelope = envelopeControl * 0.90193;
          offsetEnvelope = scaledEnvelope + 7.29;
          normalizedEnv = offsetEnvelope / 127;
          clampedEnvelope = std_clamp normalizedEnv 0 0.99;
          warpedFrequency = clampedEnvelope * msp_frequencyWarpFactor f;
          freqTerm1 = 0.031261316 * warpedFrequency;
          freqTerm2 = 0.00048274797 * warpedFrequency * warpedFrequency;
          freqTerm3 = (5.949053 / 10 ^ 6) * warpedFrequency * warpedFrequency * warpedFrequency;
          frequencyPolynomial = 0.99999636 + freqTerm1 + freqTerm2 + freqTerm3;
          freqSquared = frequencyPolynomial * frequencyPolynomial;
          freqToThe4th = freqSquared * freqSquared;
          freqToThe8th = freqToThe4th * freqToThe4th;
          freqToThe16th = freqToThe8th * freqToThe8th;
          freqToThe32nd = freqToThe16th * freqToThe16th;
          scaledCutoffFreq = freqToThe32nd * msp_frequencyScaleFactor f;
          frequencyChange = scaledCutoffFreq - msp_cutoffFrequency f;
          smoothedFreqChange = frequencyChange / 2;
          newCutoffFrequency = msp_cutoffFrequency f + smoothedFreqChange;
          nextCutoffFrequency = fixDenormalNumbers newCutoffFrequency;
          cutoffSquared = nextCutoffFrequency * nextCutoffFrequency;
          resonanceCompensation = cutoffSquared * (1 - msp_resonanceCoefficient f);
          compensatedResonance = cutoffSquared + (resonanceCompensation * resonanceCompensation);
          resonanceTerm1 = - 0.74375 + 0.3 * compensatedResonance;
          resonanceTerm2 = (1.25 + resonanceTerm1 * compensatedResonance) * compensatedResonance;
          resonanceScaling = resonanceTerm2;
          feedbackTerm1 = 0.108 + (- 0.164 - 0.069 * resonanceScaling) * resonanceScaling;
          feedbackTerm2 = (1.4 + feedbackTerm1 * resonanceScaling) * resonanceScaling;
          feedbackStrength = msp_resonanceCoefficient f * feedbackTerm2;
          inputScaling = 0.18 + 0.25 * (feedbackStrength * feedbackStrength);
          inverseResonanceScaling = 1 - resonanceScaling;
          targetResonance = 1.05 * min 1 (max (1 / 10 ^ 5) resonanceControl);
          resonanceChange = (targetResonance - msp_resonanceCoefficient f) / 4;
          nextResonanceCoeff = msp_resonanceCoefficient f + resonanceChange;
          smoothedResonanceCoeff = fixDenormalNumbers nextResonanceCoeff
      in \<lparr>m_nextCutoffFrequency = nextCutoffFrequency,
          m_resonanceScaling = resonanceScaling,
          m_feedbackStrength = feedbackStrength,
          m_inputScaling = inputScaling,
          m_inverseResonanceScaling = inverseResonanceScaling,
          m_smoothedResonanceCoeff = smoothedResonanceCoeff\<rparr>)"

text \<open>Section 3 of \<^verbatim>\<open>processSample\<close>, after the noisy input: the first iteration.\<close>

record msp_iter1 =
  m1_feedbackSignal :: real
  m1_currentSaturation :: real
  m1_saturatedFeedback :: real
  m1_stage1Input :: real
  m1_stage1Output_scaled :: real
  m1_stage2Output :: real
  m1_stage2Output_scaled :: real
  m1_stage3Output :: real
  m1_stage4Output :: real
  m1_stage4FinalOutput :: real

definition msp_first_iteration :: "msp_coeffs \<Rightarrow> msp_filter \<Rightarrow> msp_iter1" where
  "msp_first_iteration c f =
     (let resonanceScaling = m_resonanceScaling c;
          inverseResonanceScaling = m_inverseResonanceScaling c;
          cleanPreviousInput = fixDenormalNumbers (msp_previousInput f);
          feedbackSignal = cleanPreviousInput * m_inputScaling c
                           - m_feedbackStrength c * msp_combinedOutput1 f;
          saturationInput = 0.062 * feedbackSignal * feedbackSignal
                            + 0.993 * msp_saturationState f;
          currentSaturation = min 1 (max (- 1) saturationInput);
          saturationCurve = 1 - currentSaturation + 0.5 * currentSaturation * currentSaturation;
          saturatedFeedback = feedbackSignal * saturationCurve;
          stage1Input = saturatedFeedback * resonanceScaling
                        + inverseResonanceScaling * msp_stage1State f;
          stage1Output_scaled = stage1Input * 0.3;
          stage1State_scaled = msp_stage1State f * 0.3;
          stage3State_scaled = msp_stage3State f * 0.3;
          stage4State_scaled = msp_stage4State f * 0.3;
          stage2Input = stage1Input + stage1State_scaled;
          stage2Output = stage2Input * resonanceScaling
                         + inverseResonanceScaling * msp_stage2State f;
          stage2Output_scaled = stage2Output * 0.3;
          stage2State_scaled = msp_stage2State f * 0.3;
          stage3Input = stage2Output + stage2State_scaled;
          clampedStage3Input = std_clamp stage3Input (- 1) 1;
          cubicSaturation = clampedStage3Input
                            * (1 - 0.3333333 * clampedStage3Input * clampedStage3Input);
          stage3Output = cubicSaturation * resonanceScaling
                         + inverseResonanceScaling * msp_stage3State f;
          stage4Input = stage3Output + stage3State_scaled;
          stage4Output = stage4Input * resonanceScaling
                         + inverseResonanceScaling * msp_stage4State f;
          stage4FinalOutput = stage4Output + stage4State_scaled
      in \<lparr>m1_feedbackSignal = feedbackSignal,
          m1_currentSaturation = currentSaturation,
          m1_saturatedFeedback = saturatedFeedback,
          m1_stage1Input = stage1Input,
          m1_stage1Output_scaled = stage1Output_scaled,
          m1_stage2Output = stage2Output,
          m1_stage2Output_scaled = stage2Output_scaled,
          m1_stage3Output = stage3Output,
          m1_stage4Output = stage4Output,
          m1_stage4FinalOutput = stage4FinalOutput\<rparr>)"

text \<open>Section 4 of \<^verbatim>\<open>processSample\<close>: the second iteration.\<close>

record msp_iter2 =
  m2_improvedFeedback :: real
  m2_updatedSaturation :: real
  m2_updatedStage1 :: real
  m2_updatedStage1_withState :: real
  m2_updatedStage2 :: real
  m2_updatedStage2_withState :: real
  m2_stageDifference :: real
  m2_updatedStage3 :: real
  m2_stageSum :: real
  m2_updatedStage3_withState :: real
  m2_updatedStage4 :: real
  m2_updatedStage4_withState :: real

definition msp_second_iteration :: "msp_coeffs \<Rightarrow> real \<Rightarrow> msp_iter1 \<Rightarrow> msp_iter2" where
  "msp_second_iteration c noisyInput p =
     (let resonanceScaling = m_resonanceScaling c;
          inverseResonanceScaling = m_inverseResonanceScaling c;
          improvedFeedback = noisyInput * m_inputScaling c
                             - m_feedbackStrength c * m1_stage4FinalOutput p;
          newSaturationInput = 0.062 * improvedFeedback * improvedFeedback
                               + 0.993 * m1_currentSaturation p;
          updatedSaturation = min 1 (max (- 1) newSaturationInput);
          updatedSaturationCurve = 1 - updatedSaturation
                                   + 0.5 * updatedSaturation * updatedSaturation;
          updatedSaturatedFeedback = improvedFeedback * updatedSaturationCurve;
          updatedStage1 = updatedSaturatedFeedback * resonanceScaling
                          + inverseResonanceScaling * m1_stage1Input p;
          updatedStage1_withState = updatedStage1 + m1_stage1Output_scaled p;
          updatedStage2 = updatedStage1_withState * resonanceScaling
                          + inverseResonanceScaling * m1_stage2Output p;
          updatedStage2_withState = updatedStage2 + m1_stage2Output_scaled p;
          stageDifference = 2 * (updatedStage1_withState - updatedStage2_withState);
          clampedUpdatedStage2 = std_clamp updatedStage2_withState (- 1) 1;
          updatedCubicSat = clampedUpdatedStage2
                            * (1 - 0.3333333 * clampedUpdatedStage2 * clampedUpdatedStage2);
          updatedStage3 = updatedCubicSat * resonanceScaling
                          + inverseResonanceScaling * m1_stage3Output p;
          stageSum = m1_saturatedFeedback p + (- 2 * updatedStage1_withState)
                     + updatedStage2_withState;
          stage4State_scaled_updated = m1_stage4Output p * 0.3;
          stage3State_scaled_updated = m1_stage3Output p * 0.3;
          updatedStage3_withState = updatedStage3 + stage3State_scaled_updated;
          updatedStage4 = updatedStage3_withState * resonanceScaling
                          + inverseResonanceScaling * m1_stage4Output p;
          updatedStage4_withState = updatedStage4 + stage4State_scaled_updated
      in \<lparr>m2_improvedFeedback = improvedFeedback,
          m2_updatedSaturation = updatedSaturation,
          m2_updatedStage1 = updatedStage1,
          m2_updatedStage1_withState = updatedStage1_withState,
          m2_updatedStage2 = updatedStage2,
          m2_updatedStage2_withState = updatedStage2_withState,
          m2_stageDifference = stageDifference,
          m2_updatedStage3 = updatedStage3,
          m2_stageSum = stageSum,
          m2_updatedStage3_withState = updatedStage3_withState,
          m2_updatedStage4 = updatedStage4,
          m2_updatedStage4_withState = updatedStage4_withState\<rparr>)"

text \<open>Section 5 of \<^verbatim>\<open>processSample\<close>: the 24 dB low-pass combination.\<close>

definition msp_lowpass24Response :: "msp_iter1 \<Rightarrow> msp_iter2 \<Rightarrow> msp_filter \<Rightarrow> real" where
  "msp_lowpass24Response p q f =
     0.19 * (m2_updatedStage4_withState q + msp_stage4DelayedOutput f)
     + 0.57 * (m1_stage4FinalOutput p + msp_combinedOutput1 f)
     - 0.52 * msp_combinedOutput2 f"

text \<open>\<^verbatim>\<open>processSample(inputSignal, envelopeControl, resonanceControl, thermalNoise,
  filterMode)\<close>: the noisy input, the coefficients, the two iterations, the mode values,
  the \<^verbatim>\<open>switch (filterMode + 1)\<close> of section 6 and the state update of section 7.\<close>

definition msp_processSample ::
    "real \<Rightarrow> real \<Rightarrow> real \<Rightarrow> real \<Rightarrow> int \<Rightarrow> msp_filter \<Rightarrow> real \<times> msp_filter" where
  "msp_processSample inputSignal envelopeControl resonanceControl thermalNoise filterMode f =
     (let c = msp_coefficients envelopeControl resonanceControl f;
          noisyInput = inputSignal + (1 / 10 ^ 11) * thermalNoise;
          p = msp_first_iteration c f;
          q = msp_second_iteration c noisyInput p;
          lowpass24Response = msp_lowpass24Response p q f;
          complexResponse1 = m1_saturatedFeedback p
                             + (- 4 * (m2_updatedStage1_withState q + m2_updatedStage3_withState q))
                             + 6 * m2_updatedStage2_withState q + lowpass24Response;
          complexResponse2 = 4 * (m2_updatedStage2_withState q + lowpass24Response)
                             - 8 * m2_updatedStage3_withState q;
          sel = wrap32 (filterMode + 1);
          selectedOutput =
            (if sel = 1 then lowpass24Response
             else if sel = 2 then complexResponse1
             else if sel = 3 then complexResponse2
             else if sel = 4 then m2_updatedStage2_withState q
             else if sel = 5 then m2_stageSum q
             else if sel = 6 then m2_stageDifference q
             else lowpass24Response)
      in (selectedOutput,
          f\<lparr>msp_previousInput := fixDenormalNumbers noisyInput,
            msp_cutoffFrequency := m_nextCutoffFrequency c,
            msp_resonanceCoefficient := m_smoothedResonanceCoeff c,
            msp_stage1State := fixDenormalNumbers (m2_updatedStage1 q),
            msp_stage2State := fixDenormalNumbers (m2_updatedStage2 q),
            msp_stage3State := fixDenormalNumbers (m2_updatedStage3 q),
            msp_stage4State := fixDenormalNumbers (m2_updatedStage4 q),
            msp_saturationState := fixDenormalNumbers (m2_updatedSaturation q),
            msp_stage4DelayedOutput := fixDenormalNumbers (m1_stage4FinalOutput p),
            msp_combinedOutput1 := fixDenormalNumbers (m2_updatedStage4_withState q),
            msp_combinedOutput2 := fixDenormalNumbers lowpass24Response\<rparr>))"


section \<open>Objects for the example runs\<close>

text \<open>The constructors of the ZDF, fixed-point, scalar and vector classes run on an
  uninitialised object.  The example runs below start from these: every member holds an
  arbitrary value (7, or an empty array), which the constructors overwrite or, for the
  four coefficient members of the fixed-point class, leave in place.\<close>

definition fp_raw :: fp_filter where
  "fp_raw = \<lparr>fp_sampleRate = 7, fp_alpha = 7, fp_feedbackAmount = 7, fp_fc = 7, fp_rc = 7,
              fp_prevIn = 7, fp_s = [7, 7, 7, 7]\<rparr>"

definition zdf_raw :: zdf_filter where
  "zdf_raw = \<lparr>zdf_sampleRate = 7, zdf_resonance = 7, zdf_feedbackGain = 7, zdf_G = 7,
               zdf_drive = 7, zdf_mode = 7, zdf_stage = [7, 7, 7, 7], zdf_z = [7, 7, 7, 7]\<rparr>"

definition sc_raw :: sc_filter where
  "sc_raw = \<lparr>sc_s1 = 7, sc_s2 = 7, sc_s3 = 7, sc_s4 = 7, sc_s5 = 7, sc_s6 = 7, sc_s7 = 7,
              sc_s8 = 7, sc_slim = 7, sc_previn = 7, sc_rc = 7, sc_fc = 7, sc_mode = 7,
              sc_sr = 7, sc_expr1 = 7, sc_expr2 = 7\<rparr>"

definition simd_raw :: simd_filter where
  "simd_raw =
     \<lparr>simd_s1 = vdupq_n_f32 7, simd_s2 = vdupq_n_f32 7, simd_s3 = vdupq_n_f32 7,
      simd_s4 = vdupq_n_f32 7, simd_s5 = vdupq_n_f32 7, simd_s6 = vdupq_n_f32 7,
      simd_s7 = vdupq_n_f32 7, simd_s8 = vdupq_n_f32 7, simd_slim = vdupq_n_f32 7,
      simd_previn = vdupq_n_f32 7, simd_rc = vdupq_n_f32 7, simd_fc = vdupq_n_f32 7,
      simd_expr1 = vdupq_n_f32 7, simd_expr2 = vdupq_n_f32 7, simd_expr1_scalar = 7,
      simd_expr2_scalar = 7, simd_sr = 7, simd_mode = 7\<rparr>"


section \<open>Properties of the fixed-point backend\<close>

subsection \<open>Arithmetic facts\<close>

lemma wrap32_id: "is_int32 x \<Longrightarrow> wrap32 x = x"
  by (simp add: wrap32_def is_int32_def)

lemma wrap32_nonneg_id: "0 \<le> x \<Longrightarrow> x \<le> 2147483647 \<Longrightarrow> wrap32 x = x"
  by (simp add: wrap32_def)

lemma wrap32_zero [simp]: "wrap32 0 = 0"
  by (simp add: wrap32_def)

lemma wrap32_range: "is_int32 (wrap32 x)"
  unfolding wrap32_def is_int32_def
  using pos_mod_bound [of 4294967296 "x + 2147483648"] pos_mod_sign [of 4294967296 "x + 2147483648"]
  by linarith

lemma int_div_pos: "0 < b \<Longrightarrow> int_div a b = Some (sgn a * (\<bar>a\<bar> div b))"
  by (simp add: int_div_def)

lemma sgn_mult_abs_square: "(sgn a * (q::int)) * (sgn a * q) \<le> q * q"
  by (cases "a = 0"; cases "a < 0") (simp_all add: sgn_if)

lemma normFreq_bound:
  assumes sr: "29 \<le> sr" "is_int32 sr"
  shows "\<bar>shl16 (clamp_int frequency 20 (sr div 2))\<bar> div sr \<le> 46340"
proof -
  let ?fc = "clamp_int frequency 20 (sr div 2)"
  have fc0: "0 \<le> ?fc" using sr by (auto simp: clamp_int_def)
  show ?thesis
  proof (cases "65536 \<le> sr")
    case True
    have "\<bar>shl16 ?fc\<bar> \<le> 2147483648"
      using wrap32_range [of "?fc * 65536"] unfolding shl16_def is_int32_def by linarith
    then have "\<bar>shl16 ?fc\<bar> div sr \<le> 2147483648 div sr"
      using True by (intro zdiv_mono1) auto
    also have "\<dots> \<le> 2147483648 div 65536"
      using True by (intro zdiv_mono2) auto
    finally show ?thesis by simp
  next
    case False
    show ?thesis
    proof (cases "40 \<le> sr")
      case True
      have fcle: "?fc \<le> sr div 2" using True by (auto simp: clamp_int_def)
      have "?fc * 65536 \<le> 32767 * 65536" using fcle False by simp
      then have "shl16 ?fc = ?fc * 65536"
        using fc0 by (simp add: shl16_def wrap32_id is_int32_def)
      then have "\<bar>shl16 ?fc\<bar> div sr = (?fc * 65536) div sr" using fc0 by simp
      also have "\<dots> \<le> (32768 * sr) div sr"
        using fcle True by (intro zdiv_mono1) auto
      also have "\<dots> = 32768" using True by simp
      finally show ?thesis by simp
    next
      case False
      have fcle: "?fc \<le> 20" using False sr by (auto simp: clamp_int_def)
      then have "shl16 ?fc = ?fc * 65536"
        using fc0 by (simp add: shl16_def wrap32_id is_int32_def)
      then have "\<bar>shl16 ?fc\<bar> div sr = (?fc * 65536) div sr" using fc0 by simp
      also have "\<dots> \<le> 1310720 div sr"
        using fcle sr by (intro zdiv_mono1) auto
      also have "\<dots> \<le> 1310720 div 29"
        using sr by (intro zdiv_mono2) auto
      finally show ?thesis by simp
    qed
  qed
qed

lemma g_div_succ: "0 \<le> (g::int) \<Longrightarrow> g div (1 + g) = 0"
  by (simp add: div_pos_pos_trivial)

lemma fp_setCutoff_dead:
  assumes sr: "29 \<le> fp_sampleRate f" "is_int32 (fp_sampleRate f)"
  shows "fp_setCutoff frequency f =
           Some (f\<lparr>fp_fc := clamp_int frequency 20 (fp_sampleRate f div 2),
                    fp_alpha := 0, fp_feedbackAmount := 0\<rparr>)"
proof -
  let ?sr = "fp_sampleRate f"
  let ?fc = "clamp_int frequency 20 (?sr div 2)"
  let ?q = "\<bar>shl16 ?fc\<bar> div ?sr"
  let ?n = "sgn (shl16 ?fc) * ?q"
  have half: "int_div ?sr 2 = Some (?sr div 2)"
    using sr by (simp add: int_div_def)
  have nf: "int_div (shl16 ?fc) ?sr = Some ?n"
    using sr by (simp add: int_div_pos)
  have q0: "0 \<le> ?q" using sr by (simp add: pos_imp_zdiv_nonneg_iff)
  have q1: "?q \<le> 46340" using normFreq_bound [OF sr] .
  have "?q * ?q \<le> 46340 * 46340" using q0 q1 by (intro mult_mono) auto
  then have n2: "?n * ?n \<le> 2147395600"
    using sgn_mult_abs_square [of "shl16 ?fc" ?q] by linarith
  have n0: "0 \<le> ?n * ?n" by simp
  have w: "wrap32 (?n * ?n) = ?n * ?n"
    using n0 n2 by (intro wrap32_nonneg_id) linarith+
  let ?g = "shr16 (wrap32 (?n * ?n))"
  have g0: "0 \<le> ?g" using n0 by (simp add: w shr16_def pos_imp_zdiv_nonneg_iff)
  have "(?n * ?n) div 65536 \<le> 2147395600 div 65536" using n2 by (intro zdiv_mono1) auto
  then have g1: "?g \<le> 32766" by (simp add: w shr16_def)
  have w1: "wrap32 (1 + ?g) = 1 + ?g"
    using g0 g1 by (intro wrap32_nonneg_id) linarith+
  have al: "int_div ?g (wrap32 (1 + ?g)) = Some 0"
    using g0 by (simp add: w1 int_div_pos g_div_succ)
  show ?thesis
    unfolding fp_setCutoff_def half option.case Let_def nf al
    by (simp add: shr16_def)
qed


lemma fp_process_dead:
  assumes "fp_alpha f = 0" "fp_feedbackAmount f = 0"
  shows "fp_process x f = (0, f\<lparr>fp_s := [0, 0, 0, 0]\<rparr>)"
  using assms by (simp add: fp_process_def Let_def shr16_def)

lemma fp_run_dead:
  assumes "fp_alpha f = 0" "fp_feedbackAmount f = 0"
  shows "fst (fp_run xs f) = replicate (length xs) 0"
  using assms
proof (induction xs arbitrary: f)
  case Nil
  then show ?case by simp
next
  case (Cons x xs)
  have "fst (fp_run xs (f\<lparr>fp_s := [0, 0, 0, 0]\<rparr>)) = replicate (length xs) 0"
    using Cons.prems by (intro Cons.IH) simp_all
  then show ?case
    using Cons.prems by (simp add: fp_process_dead split_beta)
qed

subsection \<open>The coefficients computed by setCutoff\<close>

text \<open>
  Claim C10, as amended.  In the fixed-point backend, for every frequency argument and
  every sample rate from 29 up to the largest \<^verbatim>\<open>int\<close>, \<^verbatim>\<open>setCutoff\<close> computes
  \<open>alpha = g / (1 + g)\<close> in integer arithmetic with \<open>0 \<le> g < 1 + g\<close>, so the stored
  \<^verbatim>\<open>alpha\<close> and the derived \<^verbatim>\<open>feedbackAmount\<close> are both 0; consequently, starting from
  the reset state, \<^verbatim>\<open>process\<close> returns 0 for every input sequence.
\<close>

theorem fp_setCutoff_alpha_zero:
  assumes "29 \<le> fp_sampleRate f" and "is_int32 (fp_sampleRate f)"
  shows "\<exists>f'. fp_setCutoff frequency f = Some f' \<and> fp_alpha f' = 0 \<and> fp_feedbackAmount f' = 0
           \<and> fst (fp_run ins (fp_reset f')) = replicate (length ins) 0"
proof -
  let ?f' = "f\<lparr>fp_fc := clamp_int frequency 20 (fp_sampleRate f div 2),
                fp_alpha := 0, fp_feedbackAmount := 0\<rparr>"
  have "fp_setCutoff frequency f = Some ?f'"
    using assms by (rule fp_setCutoff_dead)
  moreover have "fst (fp_run ins (fp_reset ?f')) = replicate (length ins) 0"
    by (rule fp_run_dead) (simp_all add: fp_reset_def)
  ultimately show ?thesis by simp
qed

text \<open>The theorem at a 44.1 kHz filter, cutoff 1000, on three samples.\<close>

theorem fp_setCutoff_alpha_zero_witness:
  "29 \<le> fp_sampleRate (fp_construct fp_raw 44100)
   \<and> is_int32 (fp_sampleRate (fp_construct fp_raw 44100))
   \<and> (\<exists>f'. fp_setCutoff 1000 (fp_construct fp_raw 44100) = Some f'
         \<and> fp_alpha f' = 0 \<and> fp_feedbackAmount f' = 0
         \<and> fst (fp_run [32767, - 20000, 5] (fp_reset f')) = replicate (length [32767, - 20000, 5 :: int]) 0)"
proof -
  let ?f = "fp_construct fp_raw 44100"
  have h1: "29 \<le> fp_sampleRate ?f" by code_simp
  have h2: "is_int32 (fp_sampleRate ?f)" by code_simp
  show ?thesis
    by (rule conjI [OF h1 conjI [OF h2 fp_setCutoff_alpha_zero [OF h1 h2]]])
qed

text \<open>
  Claim C10 as the specification states it (every positive sample rate) fails at a
  sample rate of 9: the clamped cutoff is 20, \<^verbatim>\<open>normFreq\<close> is 145635, its square does not
  fit 32 bits and wraps to a negative number, \<open>g = - 4048\<close> and \<open>alpha = g / (1 + g) = 1\<close>;
  \<^verbatim>\<open>process(-100000)\<close> then returns \<open>- 1\<close>.
\<close>

theorem fp_setCutoff_alpha_counterexample:
  "fp_setCutoff 0 (fp_construct fp_raw 9)
     = Some \<lparr>fp_sampleRate = 9, fp_alpha = 1, fp_feedbackAmount = 0,
        fp_fc = 20, fp_rc = 7, fp_prevIn = 0, fp_s = [0, 0, 0, 0]\<rparr>
   \<and> fst (fp_process (- 100000) \<lparr>fp_sampleRate = 9, fp_alpha = 1, fp_feedbackAmount = 0,
        fp_fc = 20, fp_rc = 7, fp_prevIn = 0, fp_s = [0, 0, 0, 0]\<rparr>) = - 1"
  by code_simp

subsection \<open>The input offset\<close>

text \<open>
  Claim C9 says that, because \<^verbatim>\<open>process\<close> adds 1 to every input sample, the recursion
  never settles at an exact zero state and every output carries the bias.  The code at a
  44.1 kHz filter with cutoff 1000 and resonance 128: \<^verbatim>\<open>setCutoff\<close> leaves \<^verbatim>\<open>alpha\<close> and
  \<^verbatim>\<open>feedbackAmount\<close> at 0, and four calls of \<^verbatim>\<open>process\<close> (on 0, 0, 1000, - 1000) each
  return 0 and leave the four stage states at exactly 0.
\<close>

theorem fp_process_offset_lost:
  "fp_setCutoff 1000 (fp_setResonance 128 (fp_construct fp_raw 44100))
     = Some \<lparr>fp_sampleRate = 44100, fp_alpha = 0, fp_feedbackAmount = 0,
        fp_fc = 1000, fp_rc = 32, fp_prevIn = 0, fp_s = [0, 0, 0, 0]\<rparr>
   \<and> fp_run [0, 0, 1000, - 1000]
        \<lparr>fp_sampleRate = 44100, fp_alpha = 0, fp_feedbackAmount = 0,
         fp_fc = 1000, fp_rc = 32, fp_prevIn = 0, fp_s = [0, 0, 0, 0]\<rparr>
     = ([0, 0, 0, 0], \<lparr>fp_sampleRate = 44100, fp_alpha = 0, fp_feedbackAmount = 0,
         fp_fc = 1000, fp_rc = 32, fp_prevIn = 0, fp_s = [0, 0, 0, 0]\<rparr>)"
proof (rule conjI)
  show "fp_setCutoff 1000 (fp_setResonance 128 (fp_construct fp_raw 44100))
     = Some \<lparr>fp_sampleRate = 44100, fp_alpha = 0, fp_feedbackAmount = 0,
        fp_fc = 1000, fp_rc = 32, fp_prevIn = 0, fp_s = [0, 0, 0, 0]\<rparr>"
    by code_simp
  show "fp_run [0, 0, 1000, - 1000]
        \<lparr>fp_sampleRate = 44100, fp_alpha = 0, fp_feedbackAmount = 0,
         fp_fc = 1000, fp_rc = 32, fp_prevIn = 0, fp_s = [0, 0, 0, 0]\<rparr>
     = ([0, 0, 0, 0], \<lparr>fp_sampleRate = 44100, fp_alpha = 0, fp_feedbackAmount = 0,
         fp_fc = 1000, fp_rc = 32, fp_prevIn = 0, fp_s = [0, 0, 0, 0]\<rparr>)"
    by (simp add: fp_process_dead)
qed


section \<open>Properties of the ZDF core\<close>

subsection \<open>One call of process\<close>

text \<open>The loop of \<^verbatim>\<open>process\<close> on four-element arrays, unrolled.\<close>

lemma zdf_stages_unroll:
  "zdf_stages 0 G u [a0, a1, a2, a3] [b0, b1, b2, b3] =
     (let v0 = (u - b0) / (1 + G); y0 = v0 + b0;
          v1 = (y0 - b1) / (1 + G); y1 = v1 + b1;
          v2 = (y1 - b2) / (1 + G); y2 = v2 + b2;
          v3 = (y2 - b3) / (1 + G); y3 = v3 + b3
      in ([y0, y1, y2, y3], [y0 + v0, y1 + v1, y2 + v2, y3 + v3]))"
  by (simp add: zdf_stages.simps [of 0] zdf_stages.simps [of "Suc 0"]
      zdf_stages.simps [of "Suc (Suc 0)"] zdf_stages.simps [of "Suc (Suc (Suc 0))"]
      zdf_stages.simps [of "Suc (Suc (Suc (Suc 0)))"] Let_def)

text \<open>
  Claim C1, as amended.  For every input sample \<open>x\<close> and every parameter state, one call
  of \<^verbatim>\<open>process(x)\<close> on a filter whose arrays hold \<open>a0 \<dots> a3\<close> and \<open>b0 \<dots> b3\<close> computes
  \<open>u = x - feedbackGain * fb\<close>, where \<open>fb\<close> is \<open>stage[3]\<close>, saturated to
  \<open>tanh (stage[3] * drive)\<close> exactly when \<open>drive > 0.001\<close>; then updates the four stages
  in order by \<open>v = (u - z[i]) / (1 + G)\<close>, \<open>stage[i] = v + z[i]\<close>, \<open>z[i] = stage[i] + v\<close>,
  \<open>u = stage[i]\<close>; and returns \<open>stage[3]\<close> in LP24 mode, \<open>stage[2] - stage[3]\<close> in BP12
  mode, \<open>x - stage[3]\<close> in HP24 mode and \<open>stage[3]\<close> for any other mode value; no other
  member changes.
\<close>

theorem zdf_process_threshold:
  "zdf_process x (f\<lparr>zdf_stage := [a0, a1, a2, a3], zdf_z := [b0, b1, b2, b3]\<rparr>) =
     (case spec_zdf_process 0.001 x (f\<lparr>zdf_stage := [a0, a1, a2, a3], zdf_z := [b0, b1, b2, b3]\<rparr>)
      of (out, stage, z) \<Rightarrow> (out, f\<lparr>zdf_stage := stage, zdf_z := z\<rparr>))"
  by (simp add: zdf_process_def spec_zdf_process_def zdf_stages_unroll Let_def)

text \<open>The evaluation of the code and of the specification's wording on a concrete run.\<close>

lemma tan_quarter: "tan (pi * 1000 / 4000) = 1"
proof -
  have "pi * 1000 / 4000 = pi / 4" by simp
  then show ?thesis by (simp only: tan_45)
qed

lemma zdf_construct_4000:
  "zdf_setDrive 0.0005 (zdf_construct
      zdf_raw 4000)
   = \<lparr>zdf_sampleRate = 4000, zdf_resonance = 1 / 2, zdf_feedbackGain = 2, zdf_G = 1,
      zdf_drive = 1 / 2000, zdf_mode = 0, zdf_stage = [0, 0, 0, 0], zdf_z = [0, 0, 0, 0]\<rparr>"
  by (simp add: zdf_construct_def zdf_setDrive_def zdf_setResonance_def zdf_setCutoff_def
      zdf_reset_def clamp_float_def LP24_def Let_def zdf_raw_def tan_quarter tan_45)

lemma zdf_first_sample:
  "zdf_process 16 \<lparr>zdf_sampleRate = 4000, zdf_resonance = 1 / 2, zdf_feedbackGain = 2, zdf_G = 1,
      zdf_drive = 1 / 2000, zdf_mode = 0, zdf_stage = [0, 0, 0, 0], zdf_z = [0, 0, 0, 0]\<rparr>
   = (1, \<lparr>zdf_sampleRate = 4000, zdf_resonance = 1 / 2, zdf_feedbackGain = 2, zdf_G = 1,
      zdf_drive = 1 / 2000, zdf_mode = 0, zdf_stage = [8, 4, 2, 1], zdf_z = [16, 8, 4, 2]\<rparr>)"
  by (simp add: zdf_process_def zdf_stages_unroll Let_def LP24_def)

lemma zdf_second_sample:
  "fst (zdf_process 0 \<lparr>zdf_sampleRate = 4000, zdf_resonance = 1 / 2, zdf_feedbackGain = 2, zdf_G = 1,
      zdf_drive = 1 / 2000, zdf_mode = 0, zdf_stage = [8, 4, 2, 1], zdf_z = [16, 8, 4, 2]\<rparr>)
   = 31 / 8"
  by (simp add: zdf_process_def zdf_stages_unroll Let_def LP24_def)

lemma spec_second_sample:
  "fst (spec_zdf_process 0 0 \<lparr>zdf_sampleRate = 4000, zdf_resonance = 1 / 2, zdf_feedbackGain = 2, zdf_G = 1,
      zdf_drive = 1 / 2000, zdf_mode = 0, zdf_stage = [8, 4, 2, 1], zdf_z = [16, 8, 4, 2]\<rparr>)
   = 4 - tanh (1 / 2000) / 8"
  by (simp add: spec_zdf_process_def Let_def LP24_def field_simps)

text \<open>
  Claim C1 as the specification states it (saturation whenever \<open>drive > 0\<close>) fails for a
  drive of 0.0005.  The filter is constructed at 4000 Hz, where the default cutoff of
  1000 Hz gives \<open>G = tan (pi / 4) = 1\<close>; after \<^verbatim>\<open>setDrive(0.0005)\<close> and \<^verbatim>\<open>process(16)\<close>
  the stages hold 8, 4, 2, 1.  The next call \<^verbatim>\<open>process(0)\<close> feeds back \<open>stage[3] = 1\<close>
  unsaturated and returns \<open>31/8\<close>; with the saturated feedback sample it would return
  \<open>4 - tanh (1/2000) / 8\<close>.
\<close>

theorem zdf_process_drive_counterexample:
  "fst (zdf_process 0 (snd (zdf_process 16 (zdf_setDrive 0.0005 (zdf_construct
      zdf_raw 4000)))))
   \<noteq> fst (spec_zdf_process 0 0 (snd (zdf_process 16 (zdf_setDrive 0.0005 (zdf_construct
      zdf_raw 4000)))))"
proof -
  have "tanh (1 / 2000 :: real) < 1" by (rule tanh_real_lt_1)
  then have "(31 / 8 :: real) \<noteq> 4 - tanh (1 / 2000) / 8" by simp
  then show ?thesis
    unfolding zdf_construct_4000 zdf_first_sample snd_conv zdf_second_sample spec_second_sample .
qed


subsection \<open>The cutoff clamp\<close>

lemma zdf_setCutoff_idem: "zdf_setCutoff c (zdf_setCutoff c f) = zdf_setCutoff c f"
  by (simp add: zdf_setCutoff_def Let_def)

lemma fp_setCutoff_idem:
  "fp_setCutoff c g = Some g' \<Longrightarrow> fp_setCutoff c g' = Some g'"
  by (auto simp: fp_setCutoff_def Let_def split: option.splits)


lemma clamp_float_max_min: "lo \<le> hi \<Longrightarrow> clamp_float x lo hi = max lo (min x hi)"
  by (simp add: clamp_float_def max_def min_def)

lemma clamp_int_max_min: "lo \<le> hi \<Longrightarrow> clamp_int x lo hi = max lo (min x hi)"
  by (simp add: clamp_int_def max_def min_def)

lemma zdf_setCutoff_low:
  assumes "20 \<le> zdf_sampleRate f * 0.45"
  shows "zdf_setCutoff (- 100) f = zdf_setCutoff 20 f"
  using assms by (simp add: zdf_setCutoff_def clamp_float_def Let_def)

lemma zdf_setCutoff_high:
  assumes "20 \<le> zdf_sampleRate f * 0.45"
  shows "zdf_setCutoff (zdf_sampleRate f) f = zdf_setCutoff (0.45 * zdf_sampleRate f) f"
  using assms by (simp add: zdf_setCutoff_def clamp_float_def Let_def)

lemma zdf_setCutoff_G:
  assumes "20 \<le> zdf_sampleRate f * 0.45"
  shows "zdf_G (zdf_setCutoff c f)
            = tan (pi * max 20 (min c (0.45 * zdf_sampleRate f)) / zdf_sampleRate f)"
  using assms by (simp add: zdf_setCutoff_def clamp_float_max_min Let_def mult.commute)

lemma fp_setCutoff_fc:
  assumes "40 \<le> fp_sampleRate g" "is_int32 (fp_sampleRate g)"
  shows "\<exists>g'. fp_setCutoff k g = Some g' \<and> fp_fc g' = max 20 (min k (fp_sampleRate g div 2))"
proof -
  have "29 \<le> fp_sampleRate g" using assms by simp
  then have "fp_setCutoff k g =
           Some (g\<lparr>fp_fc := clamp_int k 20 (fp_sampleRate g div 2),
                    fp_alpha := 0, fp_feedbackAmount := 0\<rparr>)"
    using assms(2) by (rule fp_setCutoff_dead)
  moreover have "20 \<le> fp_sampleRate g div 2" using assms(1) by simp
  ultimately show ?thesis by (simp add: clamp_int_max_min)
qed

lemma zdf_construct_44100_rate: "zdf_sampleRate (zdf_construct zdf_raw 44100) = 44100"
  by (simp add: zdf_construct_def zdf_setResonance_def zdf_setCutoff_def zdf_reset_def Let_def)

text \<open>
  Claim C6, as amended.  For every value \<open>c\<close>, calling \<^verbatim>\<open>setCutoff(c)\<close> twice in succession
  leaves exactly the same object as calling it once, in the ZDF controller and in the
  fixed-point controller.  In the ZDF controller, whenever the range \<open>[20, 0.45 *
  sampleRate]\<close> is not empty, \<^verbatim>\<open>setCutoff(-100)\<close> leaves the same coefficients as
  \<^verbatim>\<open>setCutoff(20)\<close>, \<^verbatim>\<open>setCutoff(sampleRate)\<close> the same as \<^verbatim>\<open>setCutoff(0.45 * sampleRate)\<close>,
  and \<open>G\<close> is computed from the cutoff clamped to that range.  The fixed-point controller
  clamps the cutoff to \<open>[20, sampleRate / 2]\<close> instead (shown for sample rates from 40 up,
  where that range is not empty).
\<close>

theorem setCutoff_clamp:
  "zdf_setCutoff c (zdf_setCutoff c f) = zdf_setCutoff c f
   \<and> (20 \<le> zdf_sampleRate f * 0.45 \<longrightarrow>
        zdf_setCutoff (- 100) f = zdf_setCutoff 20 f
        \<and> zdf_setCutoff (zdf_sampleRate f) f = zdf_setCutoff (0.45 * zdf_sampleRate f) f
        \<and> zdf_G (zdf_setCutoff c f)
            = tan (pi * max 20 (min c (0.45 * zdf_sampleRate f)) / zdf_sampleRate f))
   \<and> (fp_setCutoff k g = Some g1 \<longrightarrow> fp_setCutoff k g1 = Some g1)
   \<and> (40 \<le> fp_sampleRate g \<and> is_int32 (fp_sampleRate g) \<longrightarrow>
        (\<exists>g2. fp_setCutoff k g = Some g2
              \<and> fp_fc g2 = max 20 (min k (fp_sampleRate g div 2))))"
  using zdf_setCutoff_idem zdf_setCutoff_low zdf_setCutoff_high zdf_setCutoff_G
    fp_setCutoff_idem fp_setCutoff_fc by blast

text \<open>The theorem at 44.1 kHz filters.\<close>

theorem setCutoff_clamp_witness:
  "20 \<le> zdf_sampleRate (zdf_construct zdf_raw 44100) * 0.45
   \<and> zdf_setCutoff (- 100) (zdf_construct zdf_raw 44100)
       = zdf_setCutoff 20 (zdf_construct zdf_raw 44100)
   \<and> zdf_setCutoff (zdf_sampleRate (zdf_construct zdf_raw 44100)) (zdf_construct zdf_raw 44100)
       = zdf_setCutoff (0.45 * zdf_sampleRate (zdf_construct zdf_raw 44100))
           (zdf_construct zdf_raw 44100)
   \<and> fp_setCutoff 44100 (fp_construct fp_raw 44100)
       = Some \<lparr>fp_sampleRate = 44100, fp_alpha = 0, fp_feedbackAmount = 0,
               fp_fc = 22050, fp_rc = 7, fp_prevIn = 0, fp_s = [0, 0, 0, 0]\<rparr>
   \<and> fp_setCutoff 44100 \<lparr>fp_sampleRate = 44100, fp_alpha = 0, fp_feedbackAmount = 0,
               fp_fc = 22050, fp_rc = 7, fp_prevIn = 0, fp_s = [0, 0, 0, 0]\<rparr>
       = Some \<lparr>fp_sampleRate = 44100, fp_alpha = 0, fp_feedbackAmount = 0,
               fp_fc = 22050, fp_rc = 7, fp_prevIn = 0, fp_s = [0, 0, 0, 0]\<rparr>
   \<and> 40 \<le> fp_sampleRate (fp_construct fp_raw 44100)
   \<and> is_int32 (fp_sampleRate (fp_construct fp_raw 44100))"
proof -
  let ?Z = "zdf_construct zdf_raw 44100"
  let ?F = "fp_construct fp_raw 44100"
  let ?G = "\<lparr>fp_sampleRate = 44100, fp_alpha = 0, fp_feedbackAmount = 0,
               fp_fc = 22050, fp_rc = 7, fp_prevIn = 0, fp_s = [0, 0, 0, 0]\<rparr>"
  have h1: "20 \<le> zdf_sampleRate ?Z * 0.45" by (simp add: zdf_construct_44100_rate)
  have h2: "fp_setCutoff 44100 ?F = Some ?G" by code_simp
  have h3: "40 \<le> fp_sampleRate ?F" by code_simp
  have h4: "is_int32 (fp_sampleRate ?F)" by code_simp
  note T = setCutoff_clamp [of 30000 ?Z 44100 ?F ?G]
  have a: "zdf_setCutoff (- 100) ?Z = zdf_setCutoff 20 ?Z"
    and b: "zdf_setCutoff (zdf_sampleRate ?Z) ?Z = zdf_setCutoff (0.45 * zdf_sampleRate ?Z) ?Z"
    using T h1 by blast+
  have c: "fp_setCutoff 44100 ?G = Some ?G" using T h2 by blast
  show ?thesis using h1 a b h2 c h3 h4 by (intro conjI)
qed

lemma tan_two_thirds_neg: "tan (pi * 20 / 30) < 0"
proof -
  have "pi * 20 / 30 = - (pi / 3) + pi" by simp
  then have "tan (pi * 20 / 30) = tan (- (pi / 3) + pi)" by simp
  also have "\<dots> = tan (- (pi / 3))" by (rule tan_periodic_pi)
  also have "\<dots> = - sqrt 3" by (simp add: tan_60)
  finally show ?thesis by simp
qed

lemma tan_nine_twentieths_pos: "0 < tan (pi * 13.5 / 30)"
  by (rule tan_gt_zero) (simp_all)

text \<open>
  Claim C6 as the specification states it fails in two places.  The fixed-point
  controller at 44100 Hz stores the cutoff 22050 for \<^verbatim>\<open>setCutoff(44100)\<close> and 19845 for
  \<^verbatim>\<open>setCutoff(19845)\<close>: its upper bound is \<open>sampleRate / 2\<close>, not \<open>0.45 * sampleRate\<close>.  And
  a ZDF filter constructed at 30 Hz, where \<open>0.45 * sampleRate\<close> is below 20, gets a negative
  \<open>G\<close> from \<^verbatim>\<open>setCutoff(-100)\<close> (cutoff 20) and a positive one from \<^verbatim>\<open>setCutoff(20)\<close>
  (cutoff 13.5).
\<close>

theorem setCutoff_clamp_counterexample:
  "fp_setCutoff 44100 (fp_construct fp_raw 44100)
       = Some \<lparr>fp_sampleRate = 44100, fp_alpha = 0, fp_feedbackAmount = 0,
               fp_fc = 22050, fp_rc = 7, fp_prevIn = 0, fp_s = [0, 0, 0, 0]\<rparr>
   \<and> fp_setCutoff 19845 (fp_construct fp_raw 44100)
       = Some \<lparr>fp_sampleRate = 44100, fp_alpha = 0, fp_feedbackAmount = 0,
               fp_fc = 19845, fp_rc = 7, fp_prevIn = 0, fp_s = [0, 0, 0, 0]\<rparr>
   \<and> zdf_G (zdf_setCutoff (- 100) (zdf_construct zdf_raw 30)) < 0
   \<and> 0 < zdf_G (zdf_setCutoff 20 (zdf_construct zdf_raw 30))"
proof (intro conjI)
  show "fp_setCutoff 44100 (fp_construct fp_raw 44100)
       = Some \<lparr>fp_sampleRate = 44100, fp_alpha = 0, fp_feedbackAmount = 0,
               fp_fc = 22050, fp_rc = 7, fp_prevIn = 0, fp_s = [0, 0, 0, 0]\<rparr>"
    by code_simp
  show "fp_setCutoff 19845 (fp_construct fp_raw 44100)
       = Some \<lparr>fp_sampleRate = 44100, fp_alpha = 0, fp_feedbackAmount = 0,
               fp_fc = 19845, fp_rc = 7, fp_prevIn = 0, fp_s = [0, 0, 0, 0]\<rparr>"
    by code_simp
  have r: "zdf_sampleRate (zdf_construct zdf_raw 30) = 30"
    by (simp add: zdf_construct_def zdf_setResonance_def zdf_setCutoff_def zdf_reset_def Let_def)
  show "zdf_G (zdf_setCutoff (- 100) (zdf_construct zdf_raw 30)) < 0"
    using tan_two_thirds_neg by (simp add: zdf_setCutoff_def r clamp_float_def Let_def)
  show "0 < zdf_G (zdf_setCutoff 20 (zdf_construct zdf_raw 30))"
    using tan_nine_twentieths_pos by (simp add: zdf_setCutoff_def r clamp_float_def Let_def)
qed


subsection \<open>Full resonance without saturation\<close>

text \<open>One stage of the ladder, on values oriented by the sign of the cone.\<close>

lemma tpt_stage_bounds:
  fixes G e U W :: real
  assumes G: "0 \<le> G" "G \<le> 1 / 100" and e: "0 < e"
    and U: "0 \<le> U" "U \<le> 4 * e" and W: "- 10 * e \<le> W" "W \<le> 0"
  shows "U - (14 / 100) * e \<le> (U - W) / (1 + G) + W"
    and "(U - W) / (1 + G) + W \<le> U"
    and "0 \<le> (U - W) / (1 + G)"
    and "(U - W) / (1 + G) \<le> 14 * e"
proof -
  have pos: "0 < 1 + G" using G by simp
  have d: "0 \<le> U - W" "U - W \<le> 14 * e" using U W by simp_all
  have "G * (U - W) \<le> (1 / 100) * (14 * e)"
    using G d by (intro mult_mono) auto
  then have p1: "G * U - G * W \<le> (14 / 100) * e"
    by (simp add: right_diff_distrib)
  have "0 \<le> G * (U - W)" using G d by simp
  then have p2: "0 \<le> G * U - G * W" by (simp only: right_diff_distrib)
  have p3: "0 \<le> G * e" using G e by simp
  have eq: "(U - W) / (1 + G) + W = (U + G * W) / (1 + G)"
    using pos by (simp add: field_simps)
  have x1: "(U - (14 / 100) * e) * (1 + G) = U + G * U - (14 / 100) * e - (14 / 100) * (G * e)"
    by (simp add: algebra_simps)
  have "(U - (14 / 100) * e) * (1 + G) \<le> U + G * W"
    unfolding x1 using p1 p3 by linarith
  then show "U - (14 / 100) * e \<le> (U - W) / (1 + G) + W"
    unfolding eq using pos by (simp only: pos_le_divide_eq)
  have x2: "U * (1 + G) = U + G * U" by (simp add: algebra_simps)
  have "U + G * W \<le> U * (1 + G)"
    unfolding x2 using p2 by linarith
  then show "(U - W) / (1 + G) + W \<le> U"
    unfolding eq using pos by (simp only: pos_divide_le_eq)
  show "0 \<le> (U - W) / (1 + G)" using d pos by simp
  have x3: "(14 * e) * (1 + G) = 14 * e + 14 * (G * e)" by (simp add: algebra_simps)
  have "U - W \<le> (14 * e) * (1 + G)" unfolding x3 using d p3 by linarith
  then show "(U - W) / (1 + G) \<le> 14 * e"
    using pos by (simp only: pos_divide_le_eq)
qed

lemma orient_stage:
  fixes t u b G :: real
  shows "t * ((u - b) / (1 + G) + b) = (t * u - t * b) / (1 + G) + t * b"
    and "t * ((u - b) / (1 + G)) = (t * u - t * b) / (1 + G)"
  by (simp_all add: algebra_simps diff_divide_distrib)


lemma list_of_four: "length xs = 4 \<Longrightarrow> xs = [xs ! 0, xs ! 1, xs ! 2, xs ! 3]"
  by (simp add: list_eq_iff_nth_eq nth_Cons' less_Suc_eq numeral_eq_Suc)

lemma zdf_process_arrays:
  assumes "zdf_stage f = [a0, a1, a2, a3]" "zdf_z f = [b0, b1, b2, b3]"
  shows "snd (zdf_process x f) =
     (let fb = (if zdf_drive f > 0.001 then tanh (a3 * zdf_drive f) else a3);
          u = x - zdf_feedbackGain f * fb; G = zdf_G f;
          v0 = (u - b0) / (1 + G); y0 = v0 + b0;
          v1 = (y0 - b1) / (1 + G); y1 = v1 + b1;
          v2 = (y1 - b2) / (1 + G); y2 = v2 + b2;
          v3 = (y2 - b3) / (1 + G); y3 = v3 + b3
      in f\<lparr>zdf_stage := [y0, y1, y2, y3], zdf_z := [y0 + v0, y1 + v1, y2 + v2, y3 + v3]\<rparr>)"
  using assms by (simp add: zdf_process_def zdf_stages_unroll Let_def)

lemma zdf_cone_step:
  assumes c: "zdf_cone \<sigma> f"
  shows "zdf_cone (- \<sigma>) (snd (zdf_process 0 f))"
    and "2 * (\<sigma> * (zdf_stage f ! 3)) \<le> (- \<sigma>) * (zdf_stage (snd (zdf_process 0 f)) ! 3)"
proof -
  define G where "G = zdf_G f"
  define a3 where "a3 = zdf_stage f ! 3"
  define b0 where "b0 = zdf_z f ! 0"
  define b1 where "b1 = zdf_z f ! 1"
  define b2 where "b2 = zdf_z f ! 2"
  define b3 where "b3 = zdf_z f ! 3"
  define e where "e = \<sigma> * a3"
  have par: "zdf_drive f = 0" "zdf_feedbackGain f = 4" and G: "0 \<le> G" "G \<le> 1 / 100"
    and len: "length (zdf_stage f) = 4" "length (zdf_z f) = 4"
    and e: "0 < e"
    and w0: "0 \<le> \<sigma> * b0" "\<sigma> * b0 \<le> 10 * e"
    and w1: "0 \<le> \<sigma> * b1" "\<sigma> * b1 \<le> 10 * e"
    and w2: "0 \<le> \<sigma> * b2" "\<sigma> * b2 \<le> 10 * e"
    and w3: "0 \<le> \<sigma> * b3" "\<sigma> * b3 \<le> 10 * e"
    using c unfolding zdf_cone_def G_def a3_def b0_def b1_def b2_def b3_def e_def by simp_all
  have st: "zdf_stage f = [zdf_stage f ! 0, zdf_stage f ! 1, zdf_stage f ! 2, a3]"
    unfolding a3_def using len(1) by (rule list_of_four)
  have zs: "zdf_z f = [b0, b1, b2, b3]"
    unfolding b0_def b1_def b2_def b3_def using len(2) by (rule list_of_four)
  define u where "u = 0 - 4 * a3"
  define v0 where "v0 = (u - b0) / (1 + G)"
  define y0 where "y0 = v0 + b0"
  define v1 where "v1 = (y0 - b1) / (1 + G)"
  define y1 where "y1 = v1 + b1"
  define v2 where "v2 = (y1 - b2) / (1 + G)"
  define y2 where "y2 = v2 + b2"
  define v3 where "v3 = (y2 - b3) / (1 + G)"
  define y3 where "y3 = v3 + b3"
  have new: "snd (zdf_process 0 f) =
      f\<lparr>zdf_stage := [y0, y1, y2, y3], zdf_z := [y0 + v0, y1 + v1, y2 + v2, y3 + v3]\<rparr>"
    unfolding zdf_process_arrays [OF st zs] par Let_def
      y3_def v3_def y2_def v2_def y1_def v1_def y0_def v0_def u_def G_def
    by simp
  define t where "t = - \<sigma>"
  have U0: "t * u = 4 * e" unfolding t_def u_def e_def by simp
  have W0: "- 10 * e \<le> t * b0" "t * b0 \<le> 0" using w0 unfolding t_def by simp_all
  have W1: "- 10 * e \<le> t * b1" "t * b1 \<le> 0" using w1 unfolding t_def by simp_all
  have W2: "- 10 * e \<le> t * b2" "t * b2 \<le> 0" using w2 unfolding t_def by simp_all
  have W3: "- 10 * e \<le> t * b3" "t * b3 \<le> 0" using w3 unfolding t_def by simp_all
  have Y0: "t * y0 = (t * u - t * b0) / (1 + G) + t * b0"
    and V0: "t * v0 = (t * u - t * b0) / (1 + G)"
    unfolding y0_def v0_def by (rule orient_stage)+
  have Y1: "t * y1 = (t * y0 - t * b1) / (1 + G) + t * b1"
    and V1: "t * v1 = (t * y0 - t * b1) / (1 + G)"
    unfolding y1_def v1_def by (rule orient_stage)+
  have Y2: "t * y2 = (t * y1 - t * b2) / (1 + G) + t * b2"
    and V2: "t * v2 = (t * y1 - t * b2) / (1 + G)"
    unfolding y2_def v2_def by (rule orient_stage)+
  have Y3: "t * y3 = (t * y2 - t * b3) / (1 + G) + t * b3"
    and V3: "t * v3 = (t * y2 - t * b3) / (1 + G)"
    unfolding y3_def v3_def by (rule orient_stage)+
  have u_rng: "0 \<le> t * u" "t * u \<le> 4 * e" using U0 e by simp_all
  note B0 = tpt_stage_bounds [OF G e u_rng W0, folded Y0 V0]
  have y0_rng: "0 \<le> t * y0" "t * y0 \<le> 4 * e" using B0 U0 e by linarith+
  note B1 = tpt_stage_bounds [OF G e y0_rng W1, folded Y1 V1]
  have y1_rng: "0 \<le> t * y1" "t * y1 \<le> 4 * e" using B0 B1 U0 e by linarith+
  note B2 = tpt_stage_bounds [OF G e y1_rng W2, folded Y2 V2]
  have y2_rng: "0 \<le> t * y2" "t * y2 \<le> 4 * e" using B0 B1 B2 U0 e by linarith+
  note B3 = tpt_stage_bounds [OF G e y2_rng W3, folded Y3 V3]
  have y3_lo: "(344 / 100) * e \<le> t * y3" using B0 B1 B2 B3 U0 by linarith
  have z0: "0 \<le> t * (y0 + v0)" "t * (y0 + v0) \<le> 10 * (t * y3)"
    using B0 y0_rng y3_lo e unfolding distrib_left by linarith+
  have z1: "0 \<le> t * (y1 + v1)" "t * (y1 + v1) \<le> 10 * (t * y3)"
    using B1 y1_rng y3_lo e unfolding distrib_left by linarith+
  have z2: "0 \<le> t * (y2 + v2)" "t * (y2 + v2) \<le> 10 * (t * y3)"
    using B2 y2_rng y3_lo e unfolding distrib_left by linarith+
  have y3_rng: "0 \<le> t * y3" "t * y3 \<le> 4 * e" using B0 B1 B2 B3 U0 e by linarith+
  have z3: "0 \<le> t * (y3 + v3)" "t * (y3 + v3) \<le> 10 * (t * y3)"
    using B3 y3_rng y3_lo e unfolding distrib_left by linarith+
  have pos: "0 < t * y3" using y3_lo e by linarith
  show "zdf_cone (- \<sigma>) (snd (zdf_process 0 f))"
    unfolding new zdf_cone_def
    using par G pos z0 z1 z2 z3 unfolding G_def t_def by simp
  show "2 * (\<sigma> * (zdf_stage f ! 3)) \<le> (- \<sigma>) * (zdf_stage (snd (zdf_process 0 f)) ! 3)"
    unfolding new using y3_lo e unfolding e_def a3_def t_def by simp
qed


lemma zdf_run_cone:
  assumes "zdf_cone \<sigma> f"
  shows "zdf_cone ((- 1) ^ n * \<sigma>) (snd (zdf_run (replicate n 0) f))
       \<and> 2 ^ n * (\<sigma> * (zdf_stage f ! 3))
           \<le> ((- 1) ^ n * \<sigma>) * (zdf_stage (snd (zdf_run (replicate n 0) f)) ! 3)"
  using assms
proof (induction n arbitrary: \<sigma> f)
  case 0
  then show ?case by simp
next
  case (Suc n)
  let ?f1 = "snd (zdf_process 0 f)"
  have c1: "zdf_cone (- \<sigma>) ?f1"
    and g1: "2 * (\<sigma> * (zdf_stage f ! 3)) \<le> (- \<sigma>) * (zdf_stage ?f1 ! 3)"
    using zdf_cone_step [OF Suc.prems] by blast+
  have run: "snd (zdf_run (replicate (Suc n) 0) f) = snd (zdf_run (replicate n 0) ?f1)"
    by (simp add: split_beta)
  have sg: "(- 1) ^ Suc n * \<sigma> = (- 1) ^ n * (- \<sigma>)" by simp
  from Suc.IH [OF c1]
  have ih1: "zdf_cone ((- 1) ^ n * (- \<sigma>)) (snd (zdf_run (replicate n 0) ?f1))"
    and ih2: "2 ^ n * ((- \<sigma>) * (zdf_stage ?f1 ! 3))
           \<le> ((- 1) ^ n * (- \<sigma>)) * (zdf_stage (snd (zdf_run (replicate n 0) ?f1)) ! 3)"
    by blast+
  have "2 ^ n * (2 * (\<sigma> * (zdf_stage f ! 3))) \<le> 2 ^ n * ((- \<sigma>) * (zdf_stage ?f1 ! 3))"
    using g1 by (intro mult_left_mono) simp_all
  then have "2 ^ Suc n * (\<sigma> * (zdf_stage f ! 3))
           \<le> ((- 1) ^ n * (- \<sigma>)) * (zdf_stage (snd (zdf_run (replicate n 0) ?f1)) ! 3)"
    using ih2 by simp
  then show ?case
    unfolding run sg using ih1 by blast
qed

lemma tan_cutoff_20_small: "0 \<le> tan (pi * 20 / 44100)" "tan (pi * 20 / 44100) \<le> 1 / 100"
proof -
  let ?x = "pi * 20 / 44100"
  have x0: "0 \<le> ?x" by simp
  have x1: "?x \<le> pi / 3" by simp
  have x2: "?x \<le> 80 / 44100" using pi_less_4 by simp
  have "pi / 3 < pi / 2" by simp
  then have x3: "?x < pi / 2" using x1 by linarith
  show "0 \<le> tan ?x" using x0 x3 by (rule tan_pos_pi2_le)
  have s0: "0 \<le> sin ?x" using x0 x1 by (intro sin_ge_zero) (simp_all)
  have s1: "sin ?x \<le> ?x" using x0 by (rule sin_x_le_x)
  have "cos (pi / 3) \<le> cos ?x"
    using x0 x1 by (intro cos_monotone_0_pi_le) simp_all
  then have c1: "1 / 2 \<le> cos ?x" by (simp add: cos_60)
  have "sin ?x / cos ?x \<le> ?x / (1 / 2)"
    using s0 s1 c1 by (intro frac_le) simp_all
  then have "tan ?x \<le> 2 * ?x" by (simp add: tan_def)
  also have "\<dots> \<le> 2 * (80 / 44100)" using x2 by (intro mult_left_mono) simp_all
  also have "\<dots> \<le> 1 / 100" by simp
  finally show "tan ?x \<le> 1 / 100" .
qed

lemma zdf_first_sample_cone:
  assumes par: "zdf_drive f = 0" "zdf_feedbackGain f = 4"
    and G: "0 \<le> zdf_G f" "zdf_G f \<le> 1 / 100"
    and st: "zdf_stage f = [0, 0, 0, 0]" "zdf_z f = [0, 0, 0, 0]"
  shows "zdf_cone 1 (snd (zdf_process 1 f))"
    and "11 / 25 \<le> zdf_stage (snd (zdf_process 1 f)) ! 3"
proof -
  define G where "G = zdf_G f"
  define y0 where "y0 = (1 - 0) / (1 + G) + (0::real)"
  define y1 where "y1 = (y0 - 0) / (1 + G) + (0::real)"
  define y2 where "y2 = (y1 - 0) / (1 + G) + (0::real)"
  define y3 where "y3 = (y2 - 0) / (1 + G) + (0::real)"
  have G': "0 \<le> G" "G \<le> 1 / 100" using G unfolding G_def by simp_all
  have new: "snd (zdf_process 1 f) =
      f\<lparr>zdf_stage := [y0, y1, y2, y3], zdf_z := [y0 + y0, y1 + y1, y2 + y2, y3 + y3]\<rparr>"
    unfolding zdf_process_arrays [OF st] par Let_def y3_def y2_def y1_def y0_def G_def
    by simp
  have one: "0 < (1::real)" "0 \<le> (1::real)" "(1::real) \<le> 4 * 1"
    "- 10 * 1 \<le> (0::real)" "(0::real) \<le> 0" by simp_all
  note B0 = tpt_stage_bounds(1,2) [OF G' one(1) one(2) one(3) one(4) one(5), folded y0_def]
  have r0: "0 \<le> y0" "y0 \<le> 4 * 1" using B0 by linarith+
  note B1 = tpt_stage_bounds(1,2) [OF G' one(1) r0 one(4) one(5), folded y1_def]
  have r1: "0 \<le> y1" "y1 \<le> 4 * 1" using B0 B1 by linarith+
  note B2 = tpt_stage_bounds(1,2) [OF G' one(1) r1 one(4) one(5), folded y2_def]
  have r2: "0 \<le> y2" "y2 \<le> 4 * 1" using B0 B1 B2 by linarith+
  note B3 = tpt_stage_bounds(1,2) [OF G' one(1) r2 one(4) one(5), folded y3_def]
  have lo: "11 / 25 \<le> y3" using B0 B1 B2 B3 by linarith
  have hi: "y0 \<le> 1" "y1 \<le> 1" "y2 \<le> 1" "y3 \<le> 1" using B0 B1 B2 B3 by linarith+
  show "zdf_cone 1 (snd (zdf_process 1 f))"
    unfolding new zdf_cone_def using par G lo hi r0 r1 r2 by simp
  show "11 / 25 \<le> zdf_stage (snd (zdf_process 1 f)) ! 3"
    unfolding new using lo by simp
qed


lemma zdf_process_mode: "zdf_mode (snd (zdf_process x f)) = zdf_mode f"
  by (simp add: zdf_process_def Let_def split_beta)

lemma zdf_process_LP24:
  "zdf_mode f = LP24 \<Longrightarrow> fst (zdf_process x f) = zdf_stage (snd (zdf_process x f)) ! 3"
  by (simp add: zdf_process_def Let_def split_beta)

lemma zdf_run_last:
  assumes "zdf_mode f = LP24" "xs \<noteq> []"
  shows "last (fst (zdf_run xs f)) = zdf_stage (snd (zdf_run xs f)) ! 3"
  using assms
proof (induction xs arbitrary: f)
  case Nil
  then show ?case by simp
next
  case (Cons x xs)
  show ?case
  proof (cases "xs = []")
    case True
    then show ?thesis using Cons.prems(1) by (simp add: split_beta zdf_process_LP24)
  next
    case False
    have m: "zdf_mode (snd (zdf_process x f)) = LP24"
      using Cons.prems(1) by (simp add: zdf_process_mode)
    have ne: "fst (zdf_run xs (snd (zdf_process x f))) \<noteq> []"
      using False by (cases xs) (simp_all add: split_beta)
    show ?thesis
      using Cons.IH [OF m False] ne by (simp add: split_beta)
  qed
qed

lemma zdf_full_resonance_filter:
  "zdf_setDrive 0 (zdf_setResonance 1 (zdf_setCutoff 20 (zdf_construct zdf_raw 44100)))
   = \<lparr>zdf_sampleRate = 44100, zdf_resonance = 1, zdf_feedbackGain = 4,
      zdf_G = tan (pi * 20 / 44100), zdf_drive = 0, zdf_mode = LP24,
      zdf_stage = [0, 0, 0, 0], zdf_z = [0, 0, 0, 0]\<rparr>"
  by (simp add: zdf_construct_def zdf_setDrive_def zdf_setResonance_def zdf_setCutoff_def
      zdf_reset_def clamp_float_def Let_def zdf_raw_def)

text \<open>
  Claim C2 says that for every resonance and drive in \<open>[0, 1]\<close> and every admissible
  cutoff the state and the outputs stay bounded.  The code at a 44.1 kHz filter with
  \<^verbatim>\<open>setCutoff(20)\<close>, \<^verbatim>\<open>setResonance(1)\<close> and \<^verbatim>\<open>setDrive(0)\<close>, fed the impulse
  \<open>1, 0, 0, \<dots>\<close>: after \<open>n\<close> further samples the magnitude of \<open>stage[3]\<close>, which is also the
  returned sample, is at least \<open>(11/25) * 2 ^ n\<close>.  The state is unbounded; in single
  precision it exceeds the largest finite value after fewer than 130 samples.
\<close>

theorem zdf_full_resonance_diverges:
  "(11 / 25) * 2 ^ n
     \<le> \<bar>zdf_stage (snd (zdf_run (1 # replicate n 0)
          (zdf_setDrive 0 (zdf_setResonance 1 (zdf_setCutoff 20
             (zdf_construct zdf_raw 44100)))))) ! 3\<bar>
   \<and> (11 / 25) * 2 ^ n
     \<le> \<bar>last (fst (zdf_run (1 # replicate n 0)
          (zdf_setDrive 0 (zdf_setResonance 1 (zdf_setCutoff 20
             (zdf_construct zdf_raw 44100))))))\<bar>"
proof -
  let ?F = "\<lparr>zdf_sampleRate = 44100, zdf_resonance = 1, zdf_feedbackGain = 4,
      zdf_G = tan (pi * 20 / 44100), zdf_drive = 0, zdf_mode = LP24,
      zdf_stage = [0, 0, 0, 0], zdf_z = [0, 0, 0, 0]\<rparr>"
  let ?f1 = "snd (zdf_process 1 ?F)"
  let ?fn = "snd (zdf_run (replicate n 0) ?f1)"
  have c1: "zdf_cone 1 ?f1" and e1: "11 / 25 \<le> zdf_stage ?f1 ! 3"
    using tan_cutoff_20_small by (intro zdf_first_sample_cone; simp)+
  have g: "2 ^ n * (1 * (zdf_stage ?f1 ! 3)) \<le> ((- 1) ^ n * 1) * (zdf_stage ?fn ! 3)"
    using zdf_run_cone [OF c1, of n] by blast
  have "(11 / 25) * 2 ^ n \<le> 2 ^ n * (zdf_stage ?f1 ! 3)"
    using e1 by (simp add: mult.commute)
  also have "\<dots> \<le> (- 1) ^ n * (zdf_stage ?fn ! 3)" using g by simp
  also have "\<dots> \<le> \<bar>(- 1) ^ n * (zdf_stage ?fn ! 3)\<bar>" by (rule abs_ge_self)
  also have "\<dots> = \<bar>zdf_stage ?fn ! 3\<bar>" by (simp add: abs_mult power_abs)
  finally have main: "(11 / 25) * 2 ^ n \<le> \<bar>zdf_stage ?fn ! 3\<bar>" .
  have run: "snd (zdf_run (1 # replicate n 0) ?F) = ?fn" by (simp add: split_beta)
  have lst: "last (fst (zdf_run (1 # replicate n 0) ?F))
               = zdf_stage (snd (zdf_run (1 # replicate n 0) ?F)) ! 3"
    by (rule zdf_run_last) simp_all
  show ?thesis
    unfolding zdf_full_resonance_filter lst run using main by simp
qed


section \<open>Properties of the vector division\<close>

text \<open>
  Claim C8, as amended.  Every vector-lane division \<open>a / b\<close> is computed as \<open>a\<close> multiplied
  by a reciprocal of \<open>b\<close> obtained from the hardware reciprocal estimate refined by
  Newton-Raphson iterations \<open>x\<^sub>k\<^sub>+\<^sub>1 = x\<^sub>k (2 - b x\<^sub>k)\<close>, never by a native divide:
  exactly two iterations in \<^verbatim>\<open>neon_divide_f32\<close>, exactly one in \<^verbatim>\<open>vdivq_f32\<close>, the division
  the vector ladder backend calls.
\<close>

theorem vector_division_newton:
  "neon_divide_f32 recpe (Vec4 n0 n1 n2 n3) (Vec4 d0 d1 d2 d3) =
     Vec4 (n0 * newton_step d0 (newton_step d0 (recpe d0)))
          (n1 * newton_step d1 (newton_step d1 (recpe d1)))
          (n2 * newton_step d2 (newton_step d2 (recpe d2)))
          (n3 * newton_step d3 (newton_step d3 (recpe d3)))
   \<and> vdivq_f32 recpe (Vec4 a0 a1 a2 a3) (Vec4 b0 b1 b2 b3) =
     Vec4 (a0 * newton_step b0 (recpe b0))
          (a1 * newton_step b1 (recpe b1))
          (a2 * newton_step b2 (recpe b2))
          (a3 * newton_step b3 (recpe b3))"
  by (simp add: neon_divide_f32_def vdivq_f32_def vrecpeq_f32_def vrecpsq_f32_def vmulq_f32_def
      newton_step_def Let_def mult.commute)

text \<open>
  Claim C8 as the specification states it (two iterations in every vector division)
  fails for \<^verbatim>\<open>vdivq_f32\<close>: dividing 1 by 2 from the estimate \<open>511/1024\<close> it returns
  \<open>262143/524288\<close>, the value after one iteration, where two iterations give
  \<open>68719476735/137438953472\<close>.
\<close>

theorem vdivq_f32_one_iteration_counterexample:
  "vdivq_f32 recpe_of_two (Vec4 1 1 1 1) (Vec4 2 2 2 2) =
     Vec4 (262143 / 524288) (262143 / 524288) (262143 / 524288) (262143 / 524288)
   \<and> newton_step 2 (newton_step 2 (recpe_of_two 2)) = 68719476735 / 137438953472
   \<and> vdivq_f32 recpe_of_two (Vec4 1 1 1 1) (Vec4 2 2 2 2) \<noteq>
     Vec4 (1 * newton_step 2 (newton_step 2 (recpe_of_two 2)))
          (1 * newton_step 2 (newton_step 2 (recpe_of_two 2)))
          (1 * newton_step 2 (newton_step 2 (recpe_of_two 2)))
          (1 * newton_step 2 (newton_step 2 (recpe_of_two 2)))"
  by (simp add: vdivq_f32_def vrecpeq_f32_def vrecpsq_f32_def vmulq_f32_def
      newton_step_def recpe_of_two_def Let_def)


section \<open>Properties of the nonlinear core\<close>

subsection \<open>The scalar backend at rest and on one loud sample\<close>

text \<open>From the reset state a silent sample leaves the scalar filter at rest.\<close>

lemma sc_first_iteration_reset:
  "sc_first_iteration c (sc_reset f) =
     \<lparr>i1_expr12 = 0, i1_expr13 = 0, i1_expr14 = 0, i1_expr15 = 0,
      i1_expr23 = 0, i1_expr30 = 0, i1_expr32 = 0, i1_add33 = 0\<rparr>"
  by (simp add: sc_first_iteration_def sc_reset_def clamp_def fixdenorm_def Let_def)

lemma sc_second_iteration_silent:
  "sc_second_iteration c 0
     \<lparr>i1_expr12 = 0, i1_expr13 = 0, i1_expr14 = 0, i1_expr15 = 0,
      i1_expr23 = 0, i1_expr30 = 0, i1_expr32 = 0, i1_add33 = 0\<rparr>
   = \<lparr>i2_expr34 = 0, i2_expr35 = 0, i2_expr37 = 0, i2_add38 = 0, i2_expr39 = 0,
      i2_add40 = 0, i2_expr44 = 0, i2_add48 = 0, i2_expr49 = 0, i2_add50 = 0\<rparr>"
  by (simp add: sc_second_iteration_def clamp_def Let_def)

lemma sc_process_silent:
  "sc_process 0 in2 in3 0 (sc_reset f) = (0, sc_reset f)"
proof -
  have e10: "(0::real) + 1 / 10 ^ 11 * 0 = 0" by simp
  show ?thesis
    unfolding sc_process_def Let_def sc_first_iteration_reset e10 sc_second_iteration_silent
    by (simp add: sc_reset_def)
qed

lemma sc_run_silent:
  "sc_run in2 in3 0 (replicate n 0 @ xs) (sc_reset f) =
     (replicate n 0 @ fst (sc_run in2 in3 0 xs (sc_reset f)),
      snd (sc_run in2 in3 0 xs (sc_reset f)))"
  by (induction n) (simp_all add: sc_process_silent split_beta)

text \<open>The sample \<^verbatim>\<open>process(1000, in2, 4, 0)\<close> on a filter at rest with cutoff parameter 1 and
  resonance 0: the envelope input 4 drives \<^verbatim>\<open>rc_mod\<close> to its clamp 1, the audio input 1000
  saturates \<^verbatim>\<open>expr35\<close> and \<^verbatim>\<open>clamp42\<close> at 1.\<close>

lemma sc_coefficients_unit:
  "sc_coefficients 4 (sc_setParams 1 0 m (sc_reset f)) =
     \<lparr>c_expr6 = 129 / 160, c_expr7 = 5506277819 / 4096000000,
      c_expr8 = 42398690940011396761 / 67108864000000000000, c_rsub9 = 31 / 160\<rparr>"
  by (simp add: sc_coefficients_def sc_setParams_def sc_reset_def clamp_def fixdenorm_def Let_def)

lemma sc_first_iteration_rest:
  "sc_first_iteration c (sc_setParams 1 0 m (sc_reset f)) =
     \<lparr>i1_expr12 = 0, i1_expr13 = 0, i1_expr14 = 0, i1_expr15 = 0,
      i1_expr23 = 0, i1_expr30 = 0, i1_expr32 = 0, i1_add33 = 0\<rparr>"
  by (simp add: sc_first_iteration_def sc_setParams_def sc_reset_def clamp_def fixdenorm_def Let_def)

lemma sc_second_iteration_loud:
  "sc_second_iteration
     \<lparr>c_expr6 = 129 / 160, c_expr7 = 5506277819 / 4096000000,
      c_expr8 = 42398690940011396761 / 67108864000000000000, c_rsub9 = 31 / 160\<rparr>
     1000
     \<lparr>i1_expr12 = 0, i1_expr13 = 0, i1_expr14 = 0, i1_expr15 = 0,
      i1_expr23 = 0, i1_expr30 = 0, i1_expr32 = 0, i1_add33 = 0\<rparr>
   = \<lparr>i2_expr34 = 42398690940011396761 / 67108864000000000,
      i2_expr35 = 1,
      i2_expr37 = 5469431131261470182169 / 21474836480000000000,
      i2_add38 = 5469431131261470182169 / 21474836480000000000,
      i2_expr39 = 705556615932729653499801 / 3435973836800000000000,
      i2_add40 = 705556615932729653499801 / 3435973836800000000000,
      i2_expr44 = 860000043 / 1600000000,
      i2_add48 = 860000043 / 1600000000,
      i2_expr49 = 110940005547 / 256000000000,
      i2_add50 = 110940005547 / 256000000000\<rparr>"
  by (simp add: sc_second_iteration_def clamp_def Let_def)


lemma sc_process_loud:
  "sc_process 1000 in2 4 0 (sc_setParams 1 0 m (sc_reset f)) =
     (if m = 0 then 2107860105393 / 25600000000000
      else if m = 1 then 2903197358659350023847 / 13743895347200000000
      else if m = 2 then 140429171213554749755781 / 171798691840000000000
      else if m = 3 then 705556615932729653499801 / 3435973836800000000000
      else if m = 4 then - 1044661346070940804794279 / 3435973836800000000000
      else if m = 5 then 169552365069105575647239 / 1717986918400000000000
      else 705556615932729653499801 / 3435973836800000000000,
      (sc_setParams 1 0 m (sc_reset f))
        \<lparr>sc_previn := 1000, sc_slim := 1,
         sc_s1 := 0,
         sc_s2 := 705556615932729653499801 / 3435973836800000000000,
         sc_s3 := 860000043 / 1600000000,
         sc_s4 := 110940005547 / 256000000000,
         sc_s5 := 110940005547 / 256000000000,
         sc_s6 := 2107860105393 / 25600000000000,
         sc_s7 := 110940005547 / 256000000000,
         sc_s8 := 0\<rparr>)"
proof -
  have e10: "(1000::real) + 1 / 10 ^ 11 * 0 = 1000" by simp
  show ?thesis
    unfolding sc_process_def Let_def sc_coefficients_unit sc_first_iteration_rest e10
      sc_second_iteration_loud
    by (simp add: sc_setParams_def sc_reset_def)
qed


lemma sc_setParams_defaults: "sc_setParams 1 0 0 (sc_reset f) = sc_reset f"
  by (simp add: sc_setParams_def sc_reset_def clamp_def fixdenorm_def)

subsection \<open>The vector backend at rest\<close>

lemma simd_process_reset:
  "simd_process recpe (vdupq_n_f32 x) in2 in3 (vdupq_n_f32 0) (simd_reset g) =
     (vdupq_n_f32 0, (simd_reset g)\<lparr>simd_previn := vdupq_n_f32 x\<rparr>)"
proof -
  obtain a0 a1 a2 a3 where e6: "v_expr6 (simd_coefficients recpe in3 (simd_reset g)) = Vec4 a0 a1 a2 a3"
    by (cases "v_expr6 (simd_coefficients recpe in3 (simd_reset g))") auto
  obtain b0 b1 b2 b3 where e7: "v_expr7 (simd_coefficients recpe in3 (simd_reset g)) = Vec4 b0 b1 b2 b3"
    by (cases "v_expr7 (simd_coefficients recpe in3 (simd_reset g))") auto
  obtain c0 c1 c2 c3 where e8: "v_expr8 (simd_coefficients recpe in3 (simd_reset g)) = Vec4 c0 c1 c2 c3"
    by (cases "v_expr8 (simd_coefficients recpe in3 (simd_reset g))") auto
  obtain d0 d1 d2 d3 where r9: "v_rsub9 (simd_coefficients recpe in3 (simd_reset g)) = Vec4 d0 d1 d2 d3"
    by (cases "v_rsub9 (simd_coefficients recpe in3 (simd_reset g))") auto
  have st: "simd_previn (simd_reset g) = Vec4 0 0 0 0" "simd_s5 (simd_reset g) = Vec4 0 0 0 0"
    "simd_slim (simd_reset g) = Vec4 0 0 0 0" "simd_s1 (simd_reset g) = Vec4 0 0 0 0"
    "simd_s2 (simd_reset g) = Vec4 0 0 0 0" "simd_s3 (simd_reset g) = Vec4 0 0 0 0"
    "simd_mode (simd_reset g) = 0"
    by (simp_all add: simd_reset_def Let_def vdupq_n_f32_def)
  show ?thesis
    unfolding simd_process_def Let_def e6 e7 e8 r9 st
    by (simp add: vdupq_n_f32_def vmlaq_f32_def
      vaddq_f32_def vsubq_f32_def vmulq_f32_def vmaxq_f32_def vminq_f32_def clamp_f32x4_def
      simd_reset_def Let_def)
qed

lemma simd_run_silent:
  "simd_run recpe in2 in3 (vdupq_n_f32 0) (map vdupq_n_f32 (replicate n 0) @ xs) (simd_reset g) =
     (replicate n (vdupq_n_f32 0) @ fst (simd_run recpe in2 in3 (vdupq_n_f32 0) xs (simd_reset g)),
      snd (simd_run recpe in2 in3 (vdupq_n_f32 0) xs (simd_reset g)))"
proof (induction n)
  case 0
  then show ?case by simp
next
  case (Suc n)
  have "(simd_reset g)\<lparr>simd_previn := vdupq_n_f32 0\<rparr> = simd_reset g"
    by (simp add: simd_reset_def Let_def)
  then show ?case
    using Suc by (simp add: simd_process_reset split_beta)
qed

subsection \<open>The double-precision model\<close>

lemma fixDenormalNumbers_guarded:
  "fixDenormalNumbers v = 0 \<or> 1 / 10 ^ 18 \<le> \<bar>fixDenormalNumbers v\<bar>"
  by (simp add: fixDenormalNumbers_def)

lemma msp_coefficients_guarded:
  "\<exists>v w. m_nextCutoffFrequency (msp_coefficients e r f) = fixDenormalNumbers v
       \<and> m_smoothedResonanceCoeff (msp_coefficients e r f) = fixDenormalNumbers w"
  unfolding msp_coefficients_def Let_def msp_coeffs.select_convs
  by (intro exI conjI) (rule refl)+

lemma msp_state_after:
  fixes f :: msp_filter and x e r n :: real and k :: int
  defines "c \<equiv> msp_coefficients e r f"
  defines "p \<equiv> msp_first_iteration c f"
  defines "q \<equiv> msp_second_iteration c (x + 1 / 10 ^ 11 * n) p"
  defines "g \<equiv> snd (msp_processSample x e r n k f)"
  shows "msp_previousInput g = fixDenormalNumbers (x + 1 / 10 ^ 11 * n)"
    and "msp_cutoffFrequency g = m_nextCutoffFrequency c"
    and "msp_resonanceCoefficient g = m_smoothedResonanceCoeff c"
    and "msp_stage1State g = fixDenormalNumbers (m2_updatedStage1 q)"
    and "msp_stage2State g = fixDenormalNumbers (m2_updatedStage2 q)"
    and "msp_stage3State g = fixDenormalNumbers (m2_updatedStage3 q)"
    and "msp_stage4State g = fixDenormalNumbers (m2_updatedStage4 q)"
    and "msp_saturationState g = fixDenormalNumbers (m2_updatedSaturation q)"
    and "msp_stage4DelayedOutput g = fixDenormalNumbers (m1_stage4FinalOutput p)"
    and "msp_combinedOutput1 g = fixDenormalNumbers (m2_updatedStage4_withState q)"
    and "msp_combinedOutput2 g = fixDenormalNumbers (msp_lowpass24Response p q f)"
    and "msp_finalFilterOutput g = msp_finalFilterOutput f"
  unfolding g_def q_def p_def c_def msp_processSample_def Let_def snd_conv
  by simp_all

lemma msp_state_guarded:
  fixes f :: msp_filter and x e r n :: real and k :: int
  defines "g \<equiv> snd (msp_processSample x e r n k f)"
  shows "(msp_previousInput g = 0 \<or> 1 / 10 ^ 18 \<le> \<bar>msp_previousInput g\<bar>)
   \<and> (msp_cutoffFrequency g = 0 \<or> 1 / 10 ^ 18 \<le> \<bar>msp_cutoffFrequency g\<bar>)
   \<and> (msp_resonanceCoefficient g = 0 \<or> 1 / 10 ^ 18 \<le> \<bar>msp_resonanceCoefficient g\<bar>)
   \<and> (msp_stage1State g = 0 \<or> 1 / 10 ^ 18 \<le> \<bar>msp_stage1State g\<bar>)
   \<and> (msp_stage2State g = 0 \<or> 1 / 10 ^ 18 \<le> \<bar>msp_stage2State g\<bar>)
   \<and> (msp_stage3State g = 0 \<or> 1 / 10 ^ 18 \<le> \<bar>msp_stage3State g\<bar>)
   \<and> (msp_stage4State g = 0 \<or> 1 / 10 ^ 18 \<le> \<bar>msp_stage4State g\<bar>)
   \<and> (msp_saturationState g = 0 \<or> 1 / 10 ^ 18 \<le> \<bar>msp_saturationState g\<bar>)
   \<and> (msp_stage4DelayedOutput g = 0 \<or> 1 / 10 ^ 18 \<le> \<bar>msp_stage4DelayedOutput g\<bar>)
   \<and> (msp_combinedOutput1 g = 0 \<or> 1 / 10 ^ 18 \<le> \<bar>msp_combinedOutput1 g\<bar>)
   \<and> (msp_combinedOutput2 g = 0 \<or> 1 / 10 ^ 18 \<le> \<bar>msp_combinedOutput2 g\<bar>)"
proof -
  obtain v w where vw: "m_nextCutoffFrequency (msp_coefficients e r f) = fixDenormalNumbers v"
      "m_smoothedResonanceCoeff (msp_coefficients e r f) = fixDenormalNumbers w"
    using msp_coefficients_guarded by blast
  show ?thesis
    unfolding g_def msp_state_after vw
    by (intro conjI fixDenormalNumbers_guarded)
qed

lemma msp_feedback_terms:
  "m1_feedbackSignal (msp_first_iteration c f)
     = fixDenormalNumbers (msp_previousInput f) * m_inputScaling c
       - m_feedbackStrength c * msp_combinedOutput1 f"
  "m2_improvedFeedback (msp_second_iteration c noisyInput p)
     = noisyInput * m_inputScaling c - m_feedbackStrength c * m1_stage4FinalOutput p"
  by (simp_all add: msp_first_iteration_def msp_second_iteration_def Let_def)

subsection \<open>Invalid mode values\<close>

lemma zdf_setMode_invalid: "newMode < 0 \<or> 2 < newMode \<Longrightarrow> zdf_setMode newMode z = z"
  by (auto simp: zdf_setMode_def)

lemma sc_setParams_keeps_mode: "sc_mode (sc_setParams c r m f) = m"
  by (simp add: sc_setParams_def)

lemma sc_coefficients_mode: "sc_coefficients in3 (f\<lparr>sc_mode := m\<rparr>) = sc_coefficients in3 f"
  by (simp add: sc_coefficients_def)

lemma sc_first_iteration_mode: "sc_first_iteration c (f\<lparr>sc_mode := m\<rparr>) = sc_first_iteration c f"
  by (simp add: sc_first_iteration_def)

lemma sc_process_invalid_mode:
  assumes "m < 0 \<or> 5 < m"
  shows "fst (sc_process in1 in2 in3 in4 (sc_setParams c r m f))
       = fst (sc_process in1 in2 in3 in4 (sc_setParams c r 3 f))"
proof -
  have m: "sc_setParams c r m f = (sc_setParams c r 3 f)\<lparr>sc_mode := m\<rparr>"
    by (simp add: sc_setParams_def)
  have "sc_mode (sc_setParams c r 3 f) = 3" by (simp add: sc_setParams_def)
  then show ?thesis
    unfolding m using assms
    by (auto simp add: sc_process_def Let_def sc_coefficients_mode sc_first_iteration_mode)
qed

lemma wrap32_invalid_mode:
  assumes "is_int32 k" "k < 0 \<or> 5 < k"
  shows "wrap32 (k + 1) \<le> 0 \<or> 6 < wrap32 (k + 1)"
proof (cases "k = 2147483647")
  case True
  then show ?thesis by (simp add: wrap32_def)
next
  case False
  then have "is_int32 (k + 1)" using assms(1) by (simp add: is_int32_def)
  then have "wrap32 (k + 1) = k + 1" by (rule wrap32_id)
  then show ?thesis using assms(2) by auto
qed

lemma msp_processSample_invalid_mode:
  assumes "is_int32 k" "k < 0 \<or> 5 < k"
  shows "fst (msp_processSample x e r n k g) = fst (msp_processSample x e r n 0 g)"
  using wrap32_invalid_mode [OF assms]
  by (auto simp add: msp_processSample_def Let_def wrap32_def)

text \<open>
  Claim C7.  Calling \<^verbatim>\<open>setMode\<close> of the ZDF filter with a value outside \<open>0 \<dots> 2\<close> leaves
  the object, hence the previously selected mode and every later \<^verbatim>\<open>process\<close> call,
  unchanged, and the scalar backend of the nonlinear family keeps an invalid mode value
  in \<^verbatim>\<open>setParams\<close>, both as the claim says.  The scalar backend's output selection,
  however, does not substitute the LP24 combination \<^verbatim>\<open>expr51\<close>: its \<^verbatim>\<open>default\<close> branch returns
  \<^verbatim>\<open>add40\<close>, the LP18 output of mode 3.  With the invalid mode 7 the sample
  \<^verbatim>\<open>process(1000, 0, 4, 0)\<close> on a fresh 44.1 kHz filter returns \<open>205.34\<dots>\<close>, the value of
  mode 3, where mode 0 (LP24) returns \<open>0.0823\<dots>\<close>.  The double-precision model of the
  same algorithm, given the same sample with mode 7, returns what it returns for mode 0,
  its LP24 response.
\<close>

theorem scalar_invalid_mode_selects_LP18:
  "zdf_setMode 7 (zdf_construct zdf_raw 44100) = zdf_construct zdf_raw 44100
   \<and> zdf_process 1 (zdf_setMode 7 (zdf_construct zdf_raw 44100))
        = zdf_process 1 (zdf_construct zdf_raw 44100)
   \<and> sc_mode (sc_setParams 1 0 7 (sc_construct sc_raw 44100)) = 7
   \<and> fst (sc_process 1000 0 4 0 (sc_setParams 1 0 7 (sc_construct sc_raw 44100)))
        = 705556615932729653499801 / 3435973836800000000000
   \<and> fst (sc_process 1000 0 4 0 (sc_setParams 1 0 3 (sc_construct sc_raw 44100)))
        = 705556615932729653499801 / 3435973836800000000000
   \<and> fst (sc_process 1000 0 4 0 (sc_setParams 1 0 0 (sc_construct sc_raw 44100)))
        = 2107860105393 / 25600000000000
   \<and> fst (sc_process 1000 0 4 0 (sc_setParams 1 0 7 (sc_construct sc_raw 44100)))
        \<noteq> fst (sc_process 1000 0 4 0 (sc_setParams 1 0 0 (sc_construct sc_raw 44100)))
   \<and> fst (msp_processSample 1000 4 0 0 7 (msp_construct 44100))
        = fst (msp_processSample 1000 4 0 0 0 (msp_construct 44100))"
proof -
  have z: "zdf_setMode 7 (zdf_construct zdf_raw 44100) = zdf_construct zdf_raw 44100"
    by (rule zdf_setMode_invalid) simp
  have m: "fst (msp_processSample 1000 4 0 0 7 (msp_construct 44100))
         = fst (msp_processSample 1000 4 0 0 0 (msp_construct 44100))"
    by (rule msp_processSample_invalid_mode) (simp_all add: is_int32_def)
  have s: "sc_mode (sc_setParams 1 0 7 (sc_construct sc_raw 44100)) = 7"
    by (rule sc_setParams_keeps_mode)
  have v: "fst (sc_process 1000 0 4 0 (sc_setParams 1 0 7 (sc_construct sc_raw 44100)))
             = 705556615932729653499801 / 3435973836800000000000
         \<and> fst (sc_process 1000 0 4 0 (sc_setParams 1 0 3 (sc_construct sc_raw 44100)))
             = 705556615932729653499801 / 3435973836800000000000
         \<and> fst (sc_process 1000 0 4 0 (sc_setParams 1 0 0 (sc_construct sc_raw 44100)))
             = 2107860105393 / 25600000000000
         \<and> fst (sc_process 1000 0 4 0 (sc_setParams 1 0 7 (sc_construct sc_raw 44100)))
             \<noteq> fst (sc_process 1000 0 4 0 (sc_setParams 1 0 0 (sc_construct sc_raw 44100)))"
    unfolding sc_construct_def sc_process_loud by simp
  from z m s v show ?thesis by simp
qed

subsection \<open>The values committed to the stage states\<close>

text \<open>The scalar backend stores the first iteration's \<^verbatim>\<open>expr15\<close> in \<^verbatim>\<open>s1\<close> and the second
  iteration's values in \<^verbatim>\<open>s2\<close>, \<^verbatim>\<open>s3\<close> and \<^verbatim>\<open>s4\<close>; the double-precision model stores the
  second iteration's values in all four stage states (\<open>msp_state_after\<close>).\<close>

lemma sc_process_commits:
  "sc_s1 (snd (sc_process in1 in2 in3 in4 f))
     = i1_expr15 (sc_first_iteration (sc_coefficients in3 f) f)
   \<and> sc_s2 (snd (sc_process in1 in2 in3 in4 f))
     = i2_expr39 (sc_second_iteration (sc_coefficients in3 f) (in1 + 1 / 10 ^ 11 * in4)
         (sc_first_iteration (sc_coefficients in3 f) f))
   \<and> sc_s3 (snd (sc_process in1 in2 in3 in4 f))
     = i2_expr44 (sc_second_iteration (sc_coefficients in3 f) (in1 + 1 / 10 ^ 11 * in4)
         (sc_first_iteration (sc_coefficients in3 f) f))
   \<and> sc_s4 (snd (sc_process in1 in2 in3 in4 f))
     = i2_expr49 (sc_second_iteration (sc_coefficients in3 f) (in1 + 1 / 10 ^ 11 * in4)
         (sc_first_iteration (sc_coefficients in3 f) f))"
  by (simp add: sc_process_def Let_def)

text \<open>
  Claim C3 says that the stage values committed to state for the next sample are the
  second pass's corrected values.  The scalar backend on a freshly constructed 44.1 kHz
  filter, one call \<^verbatim>\<open>process(1000, 0, 4, 0)\<close>: the committed \<^verbatim>\<open>s1\<close> is 0, the first pass's
  \<^verbatim>\<open>expr15\<close>, while the second pass's corrected stage-1 value \<^verbatim>\<open>expr37\<close> is
  \<open>254.69\<dots>\<close>.
\<close>

theorem scalar_commits_first_pass_stage1:
  "sc_s1 (snd (sc_process 1000 0 4 0 (sc_construct sc_raw 44100))) = 0
   \<and> i1_expr15 (sc_first_iteration (sc_coefficients 4 (sc_construct sc_raw 44100))
        (sc_construct sc_raw 44100)) = 0
   \<and> i2_expr37 (sc_second_iteration (sc_coefficients 4 (sc_construct sc_raw 44100)) 1000
        (sc_first_iteration (sc_coefficients 4 (sc_construct sc_raw 44100))
           (sc_construct sc_raw 44100)))
     = 5469431131261470182169 / 21474836480000000000"
proof -
  have F: "sc_construct sc_raw 44100 = sc_setParams 1 0 0 (sc_reset (sc_setSampleRate 44100 sc_raw))"
    by (simp add: sc_construct_def sc_setParams_defaults)
  show ?thesis
    unfolding F sc_process_loud sc_coefficients_unit sc_first_iteration_rest
      sc_second_iteration_loud
    by simp
qed

subsection \<open>Denormal guarding of the stored state\<close>

text \<open>
  Claim C5 says that after every call each stored state value of the nonlinear core is
  exactly zero or at least the denormal threshold in magnitude, \<open>10\<^sup>-\<^sup>3\<^sup>0\<close> for the
  single-precision state.  The double-precision model guards every value it stores
  (\<open>msp_state_guarded\<close>); the scalar backend stores its state unguarded: after
  \<^verbatim>\<open>process(1e-35, 0, 0, 0)\<close> on a freshly constructed filter \<^verbatim>\<open>previn\<close> holds \<open>10\<^sup>-\<^sup>3\<^sup>5\<close>,
  which is neither zero nor at least \<open>10\<^sup>-\<^sup>3\<^sup>0\<close>.
\<close>

theorem scalar_stores_unguarded_state:
  "sc_previn (snd (sc_process (1 / 10 ^ 35) 0 0 0 (sc_construct sc_raw 44100))) = 1 / 10 ^ 35
   \<and> (1 / 10 ^ 35 :: real) \<noteq> 0 \<and> \<bar>1 / 10 ^ 35 :: real\<bar> < 1 / 10 ^ 30"
  by (simp add: sc_process_def Let_def)

subsection \<open>Scalar against vector backend\<close>

text \<open>
  Claim C4 says that the scalar and the vector backend, fed identical parameters and
  inputs, agree within \<open>10\<^sup>-\<^sup>4\<close>.  Both filters are freshly constructed at 44.1 kHz (cutoff
  parameter 1, resonance 0, mode 0), the envelope input is 4, the noise input 0, and the
  audio input is \<open>n\<close> silent samples followed by the sample 1000, in every lane.  The
  scalar backend answers the last sample with \<open>0.0823\<dots>\<close>; the vector backend, whatever
  the reciprocal estimate, answers it with 0 in every lane, as its output is taken from
  the first iteration, which sees only the previous input.
\<close>

theorem scalar_and_vector_disagree:
  "fst (sc_run 0 4 0 (replicate n 0 @ [1000]) (sc_construct sc_raw 44100))
     = replicate n 0 @ [2107860105393 / 25600000000000]
   \<and> fst (simd_run recpe (vdupq_n_f32 0) (vdupq_n_f32 4) (vdupq_n_f32 0)
            (map vdupq_n_f32 (replicate n 0 @ [1000])) (simd_construct simd_raw 44100))
     = replicate n (vdupq_n_f32 0) @ [vdupq_n_f32 0]"
proof
  have "fst (sc_process 1000 0 4 0 (sc_setParams 1 0 0 (sc_reset (sc_setSampleRate 44100 sc_raw))))
          = 2107860105393 / 25600000000000"
    unfolding sc_process_loud by simp
  then show "fst (sc_run 0 4 0 (replicate n 0 @ [1000]) (sc_construct sc_raw 44100))
     = replicate n 0 @ [2107860105393 / 25600000000000]"
    unfolding sc_construct_def sc_run_silent
    by (simp add: split_beta sc_setParams_defaults)
  show "fst (simd_run recpe (vdupq_n_f32 0) (vdupq_n_f32 4) (vdupq_n_f32 0)
            (map vdupq_n_f32 (replicate n 0 @ [1000])) (simd_construct simd_raw 44100))
     = replicate n (vdupq_n_f32 0) @ [vdupq_n_f32 0]"
    unfolding simd_construct_def map_append simd_run_silent
    by (simp add: split_beta simd_process_reset)
qed

end
